theory Spec2Isabelle
  imports
    Complex_Main
    "HOL-Library.Char_ord"
    "HOL-Library.List_Lexorder"
    "HOL-Library.Option_ord"
    "HOL-Library.Multiset"
begin

section \<open>Data model of app.js\<close>

text \<open>
  The server keeps its data in two MongoDB collections, \<open>User\<close> and \<open>Order\<close>, declared
  through Mongoose schemas. A document is a record. The value at a path of a document, or
  at a key of a request body, is \<open>Undefined\<close> (the path is missing), \<open>Null\<close>, or \<open>Val v\<close> with
  a value \<open>v\<close> of the type the schema gives the path. Request bodies are modelled after
  Mongoose's casting: keys outside the schema are not represented, and neither is a value
  that does not cast to the type of its path, except in the body of POST /api/orders
  (\<open>posted_order\<close> below), where \<open>save()\<close> turns it into an answer of its own.

  \<^item> \<open>object_id\<close>: a MongoDB ObjectId (the \<open>_id\<close> of a document; \<open>Order.userId\<close> holds the
    text of one).
  \<^item> \<open>date\<close>: a JavaScript \<open>Date\<close>, in milliseconds since the epoch, as \<open>Date.now()\<close> counts.
  \<^item> \<open>json\<close>: a value the server never inspects (\<open>items\<close>, \<open>tracking\<close>), kept as its JSON
    text.
  \<^item> a finite JavaScript number (\<open>total\<close>) is a rational.
\<close>

type_synonym object_id = nat
type_synonym date = int
type_synonym json = string

datatype 'a nullable = Undefined | Null | Val 'a

text \<open>
  \<^verbatim>\<open>const User = mongoose.model('User', { firstName: String, ..., email: { type: String, unique: true },
    password: String, ..., orders: { type: Number, default: 0 }, profileImage: String,
    createdAt: { type: Date, default: Date.now } });\<close>
\<close>

record user =
  u__id :: object_id
  u_firstName :: "string nullable"
  u_lastName :: "string nullable"
  u_email :: "string nullable"
  u_password :: "string nullable"
  u_phone :: "string nullable"
  u_dateOfBirth :: "string nullable"
  u_gender :: "string nullable"
  u_address :: "string nullable"
  u_city :: "string nullable"
  u_state :: "string nullable"
  u_zipCode :: "string nullable"
  u_country :: "string nullable"
  u_orders :: int
  u_profileImage :: "string nullable"
  u_createdAt :: date

text \<open>
  \<^verbatim>\<open>cancellationReason: { reason: String, comment: String, cancelledAt: Date }\<close>
  The same shape serves for the \<open>cancellationReason\<close> object of a request body.
\<close>

record cancellation =
  reason :: "string nullable"
  comment :: "string nullable"
  cancelledAt :: "date nullable"

text \<open>
  \<^verbatim>\<open>const Order = mongoose.model('Order', { userId: String, id: String, date: String, items: Array,
    total: Number, status: String, tracking: Object, paymentMethod: String, address: String,
    cancellationReason: {...} });\<close>
\<close>

record order =
  o__id :: object_id
  o_userId :: "object_id nullable"
  o_id :: "string nullable"
  o_date :: "string nullable"
  o_items :: "json nullable"
  o_total :: "rat nullable"
  o_status :: "string nullable"
  o_tracking :: "json nullable"
  o_paymentMethod :: "string nullable"
  o_address :: "string nullable"
  o_cancellationReason :: "cancellation nullable"

text \<open>
  The database: both collections in their natural (insertion) order, and the source of
  fresh ObjectIds for \<open>new User(...)\<close> and \<open>new Order(...)\<close>, which stays above every id
  stored through the handlers.
\<close>

record store =
  users :: "user list"
  orders :: "order list"
  next_id :: object_id

subsection \<open>Request bodies\<close>

record register_body =
  rb_firstName :: "string nullable"
  rb_lastName :: "string nullable"
  rb_email :: "string nullable"
  rb_password :: "string nullable"
  rb_phone :: "string nullable"
  rb_dateOfBirth :: "string nullable"
  rb_gender :: "string nullable"
  rb_address :: "string nullable"
  rb_city :: "string nullable"
  rb_state :: "string nullable"
  rb_zipCode :: "string nullable"
  rb_country :: "string nullable"

record login_body =
  lb_email :: "string nullable"
  lb_password :: "string nullable"

record profile_body =
  pb_firstName :: "string nullable"
  pb_lastName :: "string nullable"
  pb_phone :: "string nullable"
  pb_dateOfBirth :: "string nullable"
  pb_gender :: "string nullable"
  pb_address :: "string nullable"
  pb_city :: "string nullable"
  pb_state :: "string nullable"
  pb_zipCode :: "string nullable"
  pb_country :: "string nullable"
  pb_profileImage :: "string nullable"

record password_body =
  currentPassword :: "string nullable"
  newPassword :: "string nullable"

text \<open>
  The body of POST /api/orders: any path of the Order schema, \<open>userId\<close> and \<open>_id\<close> included
  (\<open>ob__id\<close> is \<open>None\<close> when the body has no \<open>_id\<close>).
\<close>

record order_body =
  ob__id :: "object_id option"
  ob_userId :: "object_id nullable"
  ob_id :: "string nullable"
  ob_date :: "string nullable"
  ob_items :: "json nullable"
  ob_total :: "rat nullable"
  ob_status :: "string nullable"
  ob_tracking :: "json nullable"
  ob_paymentMethod :: "string nullable"
  ob_address :: "string nullable"
  ob_cancellationReason :: "cancellation nullable"

text \<open>
  What the Order schema makes of the body of POST /api/orders: the values of its paths, or,
  when some value does not cast to the type of its path (a \<open>total\<close> that is not a number, an
  \<open>_id\<close> that is not an ObjectId), the message of the validation error with which
  \<open>order.save()\<close> then rejects.
\<close>

datatype posted_order = Uncastable string | Castable order_body

text \<open>The body of PUT /api/orders/:id and of PUT /api/admin/orders/:id.\<close>

record update_body =
  ub_status :: "string nullable"
  ub_tracking :: "json nullable"
  ub_cancellationReason :: "cancellation nullable"

subsection \<open>Responses\<close>

record user_summary =
  us_id :: object_id
  us_name :: string
  us_email :: "string nullable"
  us_phone :: "string nullable"
  us_dateOfBirth :: "string nullable"
  us_gender :: "string nullable"
  us_address :: "string nullable"
  us_orders :: int
  us_profileImage :: "string nullable"

section \<open>The libraries the handlers call\<close>

subsection \<open>jsonwebtoken\<close>

text \<open>
  A token is modelled symbolically: the claim set together with the key it was signed
  with. \<open>Opaque s\<close> is any other text (not a token this library would parse).
  The registered claims \<open>iat\<close> and \<open>exp\<close> are NumericDates, whole seconds since the epoch.
\<close>

record jwt_claims =
  jwt_userId :: object_id
  jwt_email :: "string nullable"
  jwt_iat :: int
  jwt_exp :: int

datatype token = Signed jwt_claims string | Opaque string

datatype jwt_error = JsonWebTokenError | TokenExpiredError

text \<open>\<^verbatim>\<open>{ expiresIn: '24h' }\<close>, in seconds.\<close>

definition expiresIn_24h :: int where
  "expiresIn_24h = 24 * 60 * 60"

text \<open>
  \<^verbatim>\<open>jwt.sign({ userId, email }, secret, { expiresIn })\<close> at clock reading \<open>now\<close>:
  \<open>iat = floor(Date.now() / 1000)\<close>, \<open>exp = iat + expiresIn\<close>.
\<close>

definition jwt_sign :: "object_id \<Rightarrow> string nullable \<Rightarrow> string \<Rightarrow> int \<Rightarrow> date \<Rightarrow> token" where
  "jwt_sign uid em secret expiresIn now =
     Signed \<lparr>jwt_userId = uid, jwt_email = em,
             jwt_iat = now div 1000, jwt_exp = now div 1000 + expiresIn\<rparr> secret"

text \<open>
  \<^verbatim>\<open>jwt.verify(token, secret, callback)\<close> at clock reading \<open>now\<close>: the signature is checked
  first, then the expiry, \<open>floor(Date.now() / 1000) >= exp\<close> being expired.
\<close>

definition jwt_verify :: "token \<Rightarrow> string \<Rightarrow> date \<Rightarrow> jwt_error + jwt_claims" where
  "jwt_verify tok secret now =
     (case tok of
        Opaque s \<Rightarrow> Inl JsonWebTokenError
      | Signed c k \<Rightarrow>
          if k \<noteq> secret then Inl JsonWebTokenError
          else if jwt_exp c \<le> now div 1000 then Inl TokenExpiredError
          else Inr c)"

subsection \<open>bcryptjs, the driver's messages and the process environment\<close>

text \<open>
  The hash function itself is a parameter of the model: \<open>bcrypt_hash p rounds salt\<close> is
  \<^verbatim>\<open>bcrypt.hash(p, rounds)\<close> when the library draws \<open>salt\<close>, and \<open>bcrypt_compare p h\<close> is
  \<^verbatim>\<open>bcrypt.compare(p, h)\<close>. \<open>duplicate_key_message i\<close> is the message of MongoDB's E11000
  error for the \<open>_id\<close> \<open>i\<close> (it names the database). \<open>env_JWT_SECRET\<close> is
  \<^verbatim>\<open>process.env.JWT_SECRET\<close>.
\<close>

record ctx =
  bcrypt_hash :: "string \<Rightarrow> nat \<Rightarrow> string \<Rightarrow> string"
  bcrypt_compare :: "string \<Rightarrow> string \<Rightarrow> bool"
  duplicate_key_message :: "object_id \<Rightarrow> string"
  env_JWT_SECRET :: "string option"

text \<open>\<^verbatim>\<open>const JWT_SECRET = process.env.JWT_SECRET || 'your-secret-key';\<close>\<close>

definition JWT_SECRET :: "ctx \<Rightarrow> string" where
  "JWT_SECRET cx =
     (case env_JWT_SECRET cx of
        None \<Rightarrow> ''your-secret-key''
      | Some k \<Rightarrow> if k = [] then ''your-secret-key'' else k)"

text \<open>
  \<open>typeof\<close> of a value that is a string when it is there. Both \<open>bcrypt.hash\<close> and
  \<open>bcrypt.compare\<close> reject an argument that is not a string with
  \<^verbatim>\<open>Error("Illegal arguments: " + (typeof s) + ', ' + (typeof salt))\<close>, which the handlers'
  \<open>catch\<close> turns into a 500.
\<close>

definition typeof :: "string nullable \<Rightarrow> string" where
  "typeof v = (case v of Undefined \<Rightarrow> ''undefined'' | Null \<Rightarrow> ''object'' | Val x \<Rightarrow> ''string'')"

definition illegal_arguments :: "string \<Rightarrow> string \<Rightarrow> string" where
  "illegal_arguments t1 t2 = ''Illegal arguments: '' @ t1 @ '', '' @ t2"

subsection \<open>Mongoose queries\<close>

text \<open>
  \<open>Model.findOne(filter)\<close> is the first matching document of the collection, and
  \<open>Model.findOneAndUpdate(filter, update, { new: true })\<close> changes that document and
  returns it as changed, or \<open>null\<close> when nothing matches.
\<close>

definition findOne :: "('d \<Rightarrow> bool) \<Rightarrow> 'd list \<Rightarrow> 'd option" where
  "findOne p ds = find p ds"

fun update_first :: "('d \<Rightarrow> bool) \<Rightarrow> ('d \<Rightarrow> 'd) \<Rightarrow> 'd list \<Rightarrow> 'd list" where
  "update_first p f [] = []"
| "update_first p f (d # ds) = (if p d then f d # ds else d # update_first p f ds)"

definition findOneAndUpdate ::
  "('d \<Rightarrow> bool) \<Rightarrow> ('d \<Rightarrow> 'd) \<Rightarrow> 'd list \<Rightarrow> 'd option \<times> 'd list" where
  "findOneAndUpdate p f ds =
     (case findOne p ds of
        None \<Rightarrow> (None, ds)
      | Some d \<Rightarrow> (Some (f d), update_first p f ds))"

text \<open>
  A filter \<open>{ path: v }\<close>: a value matches the documents that hold it; \<open>undefined\<close> and
  \<open>null\<close> match the documents where the path is missing or null.
\<close>

definition matches :: "'a nullable \<Rightarrow> 'a nullable \<Rightarrow> bool" where
  "matches v stored =
     (case v of
        Val x \<Rightarrow> stored = Val x
      | _ \<Rightarrow> stored = Undefined \<or> stored = Null)"

text \<open>
  An update document sets the keys it defines, \<open>null\<close> included; a key whose value is
  \<open>undefined\<close> is dropped from the update (Mongoose 6 and later), so the stored value stays.
\<close>

definition set_path :: "'a nullable \<Rightarrow> 'a nullable \<Rightarrow> 'a nullable" where
  "set_path new old = (case new of Undefined \<Rightarrow> old | _ \<Rightarrow> new)"

text \<open>\<open>.select('-password')\<close>\<close>

definition select_no_password :: "user \<Rightarrow> user" where
  "select_no_password u = u\<lparr>u_password := Undefined\<rparr>"

text \<open>
  \<open>.sort({ date: -1 })\<close>: descending by the \<open>date\<close> string; a missing and a null date
  compare equal and below every string, so they come last.
\<close>

definition sort_value :: "'a nullable \<Rightarrow> 'a option" where
  "sort_value v = (case v of Val x \<Rightarrow> Some x | _ \<Rightarrow> None)"

definition sort_date_desc :: "order list \<Rightarrow> order list" where
  "sort_date_desc ds = rev (sort_key (\<lambda>d. sort_value (o_date d)) ds)"

text \<open>
  The schema option \<open>minimize\<close> (on by default): a document is saved without its empty
  objects, here a cancellation record without any value and a tracking object \<open>{}\<close>.
\<close>

definition minimize_record :: "cancellation nullable \<Rightarrow> cancellation nullable" where
  "minimize_record v =
     (if v = Val \<lparr>reason = Undefined, comment = Undefined, cancelledAt = Undefined\<rparr>
      then Undefined else v)"

definition minimize_json :: "json nullable \<Rightarrow> json nullable" where
  "minimize_json v = (if v = Val ''{}'' then Undefined else v)"

section \<open>The request handlers\<close>

datatype body =
    AuthBody string token user_summary
  | UserBody "user option"
  | MessageBody string
  | OrdersBody "order list"
  | OrderBody order

text \<open>
  \<open>Json c b\<close> is \<^verbatim>\<open>res.status(c).json(b)\<close> and \<open>Error c m\<close> is \<^verbatim>\<open>res.status(c).json({ error: m })\<close>.
  A handler takes the store and returns its response with the store it leaves.
\<close>

datatype response = Json nat body | Error nat string

fun status_code :: "response \<Rightarrow> nat" where
  "status_code (Json c b) = c"
| "status_code (Error c m) = c"

text \<open>How a template literal prints a string field.\<close>

definition template :: "string nullable \<Rightarrow> string" where
  "template v = (case v of Undefined \<Rightarrow> ''undefined'' | Null \<Rightarrow> ''null'' | Val x \<Rightarrow> x)"

subsection \<open>authenticateToken\<close>

text \<open>
  The \<open>authorization\<close> header is given as its pieces between spaces
  (\<open>authHeader.split(' ')\<close>), \<open>None\<close> when the header is missing. The middleware answers
  itself (\<open>Inl\<close>) or sets \<open>req.user\<close> and calls \<open>next()\<close> (\<open>Inr\<close>).
\<close>

definition authenticateToken :: "ctx \<Rightarrow> date \<Rightarrow> token list option \<Rightarrow> response + jwt_claims" where
  "authenticateToken cx now authHeader =
     (let token = (case authHeader of
                     None \<Rightarrow> None
                   | Some pieces \<Rightarrow> if 1 < length pieces then Some (pieces ! 1) else None)
      in case token of
           None \<Rightarrow> Inl (Error 401 ''Access token required'')
         | Some t \<Rightarrow>
             if t = Opaque [] then Inl (Error 401 ''Access token required'')
             else (case jwt_verify t (JWT_SECRET cx) now of
                     Inl err \<Rightarrow> Inl (Error 403 ''Invalid or expired token'')
                   | Inr user \<Rightarrow> Inr user))"

text \<open>
  A route declared with the middleware, \<^verbatim>\<open>app.get(path, authenticateToken, handler)\<close>: the
  handler runs only when the middleware has called \<open>next()\<close>.
\<close>

definition protected ::
  "ctx \<Rightarrow> date \<Rightarrow> token list option \<Rightarrow> store \<Rightarrow> (jwt_claims \<Rightarrow> response \<times> store)
   \<Rightarrow> response \<times> store" where
  "protected cx now authHeader s handler =
     (case authenticateToken cx now authHeader of
        Inl answer \<Rightarrow> (answer, s)
      | Inr req_user \<Rightarrow> handler req_user)"

subsection \<open>POST /api/register\<close>

definition post_api_register ::
  "ctx \<Rightarrow> store \<Rightarrow> date \<Rightarrow> string \<Rightarrow> register_body \<Rightarrow> response \<times> store" where
  "post_api_register cx s now salt b =
     (case findOne (\<lambda>u. matches (rb_email b) (u_email u)) (users s) of
        Some existingUser \<Rightarrow> (Error 400 ''User already exists with this email'', s)
      | None \<Rightarrow>
          (case rb_password b of
             Val password \<Rightarrow>
               let hashedPassword = bcrypt_hash cx password 10 salt;
                   user = \<lparr>u__id = next_id s,
                           u_firstName = rb_firstName b,
                           u_lastName = rb_lastName b,
                           u_email = rb_email b,
                           u_password = Val hashedPassword,
                           u_phone = rb_phone b,
                           u_dateOfBirth = rb_dateOfBirth b,
                           u_gender = rb_gender b,
                           u_address = rb_address b,
                           u_city = rb_city b,
                           u_state = rb_state b,
                           u_zipCode = rb_zipCode b,
                           u_country = rb_country b,
                           u_orders = 0,
                           u_profileImage = Undefined,
                           u_createdAt = now\<rparr>;
                   s' = s\<lparr>users := users s @ [user], next_id := Suc (next_id s)\<rparr>;
                   token = jwt_sign (u__id user) (u_email user) (JWT_SECRET cx) expiresIn_24h now
               in (Json 201
                     (AuthBody ''User created successfully'' token
                        \<lparr>us_id = u__id user,
                         us_name = template (rb_firstName b) @ '' '' @ template (rb_lastName b),
                         us_email = u_email user,
                         us_phone = u_phone user,
                         us_dateOfBirth = u_dateOfBirth user,
                         us_gender = u_gender user,
                         us_address = u_address user,
                         us_orders = u_orders user,
                         us_profileImage = u_profileImage user\<rparr>),
                   s')
           | _ \<Rightarrow> (Error 500 (illegal_arguments (typeof (rb_password b)) ''number''), s)))"

subsection \<open>POST /api/login\<close>

definition post_api_login :: "ctx \<Rightarrow> store \<Rightarrow> date \<Rightarrow> login_body \<Rightarrow> response \<times> store" where
  "post_api_login cx s now b =
     (case findOne (\<lambda>u. matches (lb_email b) (u_email u)) (users s) of
        None \<Rightarrow> (Error 400 ''Invalid email or password'', s)
      | Some user \<Rightarrow>
          (case (lb_password b, u_password user) of
             (Val password, Val hashed) \<Rightarrow>
               if \<not> bcrypt_compare cx password hashed
               then (Error 400 ''Invalid email or password'', s)
               else
                 let token = jwt_sign (u__id user) (u_email user) (JWT_SECRET cx) expiresIn_24h now
                 in (Json 200
                       (AuthBody ''Login successful'' token
                          \<lparr>us_id = u__id user,
                           us_name = template (u_firstName user) @ '' '' @ template (u_lastName user),
                           us_email = u_email user,
                           us_phone = u_phone user,
                           us_dateOfBirth = u_dateOfBirth user,
                           us_gender = u_gender user,
                           us_address = u_address user,
                           us_orders = u_orders user,
                           us_profileImage = u_profileImage user\<rparr>),
                     s)
           | _ \<Rightarrow>
               (Error 500 (illegal_arguments (typeof (lb_password b)) (typeof (u_password user))),
                s)))"

subsection \<open>GET /api/user, PUT /api/user, PUT /api/user/password\<close>

definition get_api_user :: "store \<Rightarrow> jwt_claims \<Rightarrow> response \<times> store" where
  "get_api_user s req_user =
     (case findOne (\<lambda>u. u__id u = jwt_userId req_user) (users s) of
        None \<Rightarrow> (Error 404 ''User not found'', s)
      | Some user \<Rightarrow> (Json 200 (UserBody (Some (select_no_password user))), s))"

definition put_api_user :: "store \<Rightarrow> jwt_claims \<Rightarrow> profile_body \<Rightarrow> response \<times> store" where
  "put_api_user s req_user b =
     (let (updatedUser, users') =
            findOneAndUpdate (\<lambda>u. u__id u = jwt_userId req_user)
              (\<lambda>u. u\<lparr>u_firstName := set_path (pb_firstName b) (u_firstName u),
                      u_lastName := set_path (pb_lastName b) (u_lastName u),
                      u_phone := set_path (pb_phone b) (u_phone u),
                      u_dateOfBirth := set_path (pb_dateOfBirth b) (u_dateOfBirth u),
                      u_gender := set_path (pb_gender b) (u_gender u),
                      u_address := set_path (pb_address b) (u_address u),
                      u_city := set_path (pb_city b) (u_city u),
                      u_state := set_path (pb_state b) (u_state u),
                      u_zipCode := set_path (pb_zipCode b) (u_zipCode u),
                      u_country := set_path (pb_country b) (u_country u),
                      u_profileImage := set_path (pb_profileImage b) (u_profileImage u)\<rparr>)
              (users s)
      in (Json 200 (UserBody (map_option select_no_password updatedUser)), s\<lparr>users := users'\<rparr>))"

definition put_api_user_password ::
  "ctx \<Rightarrow> store \<Rightarrow> string \<Rightarrow> jwt_claims \<Rightarrow> password_body \<Rightarrow> response \<times> store" where
  "put_api_user_password cx s salt req_user b =
     (case findOne (\<lambda>u. u__id u = jwt_userId req_user) (users s) of
        None \<Rightarrow> (Error 404 ''User not found'', s)
      | Some user \<Rightarrow>
          (case (currentPassword b, u_password user) of
             (Val current, Val hashed) \<Rightarrow>
               if \<not> bcrypt_compare cx current hashed
               then (Error 400 ''Current password is incorrect'', s)
               else
                 (case newPassword b of
                    Val new \<Rightarrow>
                      let hashedPassword = bcrypt_hash cx new 10 salt
                      in (Json 200 (MessageBody ''Password updated successfully''),
                          s\<lparr>users := update_first (\<lambda>u. u__id u = u__id user)
                                        (\<lambda>u. u\<lparr>u_password := Val hashedPassword\<rparr>) (users s)\<rparr>)
                  | _ \<Rightarrow>
                      (Error 500 (illegal_arguments (typeof (newPassword b)) ''number''), s))
           | _ \<Rightarrow>
               (Error 500
                  (illegal_arguments (typeof (currentPassword b)) (typeof (u_password user))),
                s)))"

subsection \<open>GET /api/orders, POST /api/orders\<close>

definition get_api_orders :: "store \<Rightarrow> jwt_claims \<Rightarrow> response \<times> store" where
  "get_api_orders s req_user =
     (Json 200 (OrdersBody
        (sort_date_desc (filter (\<lambda>d. o_userId d = Val (jwt_userId req_user)) (orders s)))), s)"

text \<open>
  \<open>new Order(orderData)\<close>, as it is saved: the paths of the schema, from \<open>orderData\<close>. The
  \<open>_id\<close> is the one of \<open>orderData\<close> when it has one, a fresh ObjectId otherwise; an \<open>Array\<close>
  path that is not given starts as the empty array.
\<close>

definition new_Order :: "object_id \<Rightarrow> order_body \<Rightarrow> order" where
  "new_Order oid orderData =
     \<lparr>o__id = (case ob__id orderData of None \<Rightarrow> oid | Some given \<Rightarrow> given),
      o_userId = ob_userId orderData,
      o_id = ob_id orderData,
      o_date = ob_date orderData,
      o_items = (case ob_items orderData of Undefined \<Rightarrow> Val ''[]'' | v \<Rightarrow> v),
      o_total = ob_total orderData,
      o_status = ob_status orderData,
      o_tracking = minimize_json (ob_tracking orderData),
      o_paymentMethod = ob_paymentMethod orderData,
      o_address = ob_address orderData,
      o_cancellationReason = minimize_record (ob_cancellationReason orderData)\<rparr>"

text \<open>
  \<open>order.save()\<close> rejects, and the \<open>catch\<close> answers 500, when the body does not pass the
  schema or when the \<open>_id\<close> is taken; the user's count is then not reached.
\<close>

definition post_api_orders ::
  "ctx \<Rightarrow> store \<Rightarrow> jwt_claims \<Rightarrow> posted_order \<Rightarrow> response \<times> store" where
  "post_api_orders cx s req_user body =
     (case body of
        Uncastable message \<Rightarrow> (Error 500 message, s)
      | Castable b \<Rightarrow>
          let orderData = b\<lparr>ob_userId := Val (jwt_userId req_user)\<rparr>;
              order = new_Order (next_id s) orderData
          in if o__id order \<in> set (map o__id (orders s))
             then (Error 500 (duplicate_key_message cx (o__id order)), s)
             else
               let s1 = s\<lparr>orders := orders s @ [order],
                         next_id := Suc (max (next_id s) (o__id order))\<rparr>;
                   s2 = s1\<lparr>users := snd (findOneAndUpdate (\<lambda>u. u__id u = jwt_userId req_user)
                                           (\<lambda>u. u\<lparr>u_orders := u_orders u + 1\<rparr>) (users s1))\<rparr>
               in (Json 201 (OrderBody order), s2))"

subsection \<open>PUT /api/orders/:id and PUT /api/admin/orders/:id\<close>

text \<open>\<open>updateData\<close>: a key the handler does not put in is \<open>Undefined\<close>.\<close>

record update_doc =
  ud_status :: "string nullable"
  ud_tracking :: "json nullable"
  ud_cancellationReason :: "cancellation nullable"

definition apply_update :: "update_doc \<Rightarrow> order \<Rightarrow> order" where
  "apply_update updateData d =
     d\<lparr>o_status := set_path (ud_status updateData) (o_status d),
       o_tracking := set_path (ud_tracking updateData) (o_tracking d),
       o_cancellationReason :=
         set_path (ud_cancellationReason updateData) (o_cancellationReason d)\<rparr>"

text \<open>
  \<^verbatim>\<open>if (status === 'Cancelled' && cancellationReason) {
    updateData.cancellationReason = { ...cancellationReason, cancelledAt: new Date() }; }\<close>
\<close>

definition add_cancellation :: "date \<Rightarrow> update_body \<Rightarrow> update_doc \<Rightarrow> update_doc" where
  "add_cancellation now b updateData =
     (case ub_cancellationReason b of
        Val cancellationReason \<Rightarrow>
          if ub_status b = Val ''Cancelled''
          then updateData\<lparr>ud_cancellationReason :=
                             Val (cancellationReason\<lparr>cancelledAt := Val now\<rparr>)\<rparr>
          else updateData
      | _ \<Rightarrow> updateData)"

definition put_api_orders_id ::
  "store \<Rightarrow> date \<Rightarrow> jwt_claims \<Rightarrow> object_id \<Rightarrow> update_body \<Rightarrow> response \<times> store" where
  "put_api_orders_id s now req_user params_id b =
     (let updateData = add_cancellation now b
            \<lparr>ud_status = ub_status b, ud_tracking = ub_tracking b,
             ud_cancellationReason = Undefined\<rparr>;
          (order, orders') =
            findOneAndUpdate
              (\<lambda>d. o__id d = params_id \<and> o_userId d = Val (jwt_userId req_user))
              (apply_update updateData) (orders s)
      in case order of
           None \<Rightarrow> (Error 404 ''Order not found'', s\<lparr>orders := orders'\<rparr>)
         | Some order \<Rightarrow> (Json 200 (OrderBody order), s\<lparr>orders := orders'\<rparr>))"

definition put_api_admin_orders_id ::
  "store \<Rightarrow> date \<Rightarrow> jwt_claims \<Rightarrow> object_id \<Rightarrow> update_body \<Rightarrow> response \<times> store" where
  "put_api_admin_orders_id s now req_user params_id b =
     (let updateData = add_cancellation now b
            \<lparr>ud_status = ub_status b, ud_tracking = Undefined,
             ud_cancellationReason = Undefined\<rparr>;
          (order, orders') =
            findOneAndUpdate (\<lambda>d. o__id d = params_id) (apply_update updateData) (orders s)
      in case order of
           None \<Rightarrow> (Error 404 ''Order not found'', s\<lparr>orders := orders'\<rparr>)
         | Some order \<Rightarrow> (Json 200 (OrderBody order), s\<lparr>orders := orders'\<rparr>))"

section \<open>Sequences of order requests\<close>

text \<open>
  The three operations that create or change orders, each with what the server reads when
  it handles the request: the verified identity, the route parameter, the body and, for
  the updates, the clock (\<open>new Date()\<close>).
\<close>

datatype request =
    PostOrder jwt_claims posted_order
  | PutOrder date jwt_claims object_id update_body
  | PutAdminOrder date jwt_claims object_id update_body

fun serve :: "ctx \<Rightarrow> store \<Rightarrow> request \<Rightarrow> response \<times> store" where
  "serve cx s (PostOrder req_user body) = post_api_orders cx s req_user body"
| "serve cx s (PutOrder now req_user params_id b) =
     put_api_orders_id s now req_user params_id b"
| "serve cx s (PutAdminOrder now req_user params_id b) =
     put_api_admin_orders_id s now req_user params_id b"

fun run :: "ctx \<Rightarrow> store \<Rightarrow> request list \<Rightarrow> store" where
  "run cx s [] = s"
| "run cx s (r # rs) = run cx (snd (serve cx s r)) rs"

text \<open>
  Where a cancellation record found on the order \<open>d\<close> can come from. \<open>carried r d\<close> is the
  record in the body of \<open>r\<close> when \<open>r\<close> is a creation by the owner of \<open>d\<close>. \<open>stamps r d\<close> is the
  record that \<open>r\<close> writes when \<open>r\<close> is an update of \<open>d\<close> (self-service by its owner, or admin) to
  the status \<open>Cancelled\<close> with a reason: the reason and comment supplied, with the clock of
  \<open>r\<close> as \<open>cancelledAt\<close>.
\<close>

fun carried :: "request \<Rightarrow> order \<Rightarrow> cancellation option" where
  "carried (PostOrder req_user (Castable b)) d =
     (if o_userId d = Val (jwt_userId req_user)
      then (case ob_cancellationReason b of Val c \<Rightarrow> Some c | _ \<Rightarrow> None)
      else None)"
| "carried r d = None"

fun stamps :: "request \<Rightarrow> order \<Rightarrow> cancellation option" where
  "stamps (PutOrder now req_user params_id b) d =
     (if params_id = o__id d \<and> o_userId d = Val (jwt_userId req_user)
         \<and> ub_status b = Val ''Cancelled''
      then (case ub_cancellationReason b of
              Val given \<Rightarrow>
                Some \<lparr>reason = reason given, comment = comment given, cancelledAt = Val now\<rparr>
            | _ \<Rightarrow> None)
      else None)"
| "stamps (PutAdminOrder now req_user params_id b) d =
     (if params_id = o__id d \<and> ub_status b = Val ''Cancelled''
      then (case ub_cancellationReason b of
              Val given \<Rightarrow>
                Some \<lparr>reason = reason given, comment = comment given, cancelledAt = Val now\<rparr>
            | _ \<Rightarrow> None)
      else None)"
| "stamps r d = None"

text \<open>
  MongoDB keeps \<open>_id\<close> unique within a collection. In the model this is the property that
  the ids of both collections are distinct and lie below \<open>next_id\<close>; every handler keeps it.
\<close>

definition ids_fresh :: "store \<Rightarrow> bool" where
  "ids_fresh s \<longleftrightarrow>
     distinct (map u__id (users s)) \<and> distinct (map o__id (orders s))
     \<and> list_all (\<lambda>i. i < next_id s) (map u__id (users s))
     \<and> list_all (\<lambda>i. i < next_id s) (map o__id (orders s))"

section \<open>Example data\<close>

text \<open>
  A small shop: Alice (user 1) owns the orders 7 and 9, Bob (user 2) owns order 8; Carol
  (user 3) holds a token and is not stored. The example hash keeps the salt in front of
  the password, and comparing looks at the end of the hash.
\<close>

definition example_ctx :: ctx where
  "example_ctx =
     \<lparr>bcrypt_hash = (\<lambda>p rounds salt. salt @ p),
      bcrypt_compare = (\<lambda>p h. drop (length h - length p) h = p),
      duplicate_key_message = (\<lambda>i. ''E11000 duplicate key error''),
      env_JWT_SECRET = None\<rparr>"

definition alice :: jwt_claims where
  "alice = \<lparr>jwt_userId = 1, jwt_email = Val ''a@x.com'', jwt_iat = 0, jwt_exp = 86400\<rparr>"


definition carol :: jwt_claims where
  "carol = \<lparr>jwt_userId = 3, jwt_email = Val ''c@x.com'', jwt_iat = 0, jwt_exp = 86400\<rparr>"

definition alice_user :: user where
  "alice_user =
     \<lparr>u__id = 1, u_firstName = Val ''Alice'', u_lastName = Val ''A'',
      u_email = Val ''a@x.com'', u_password = Val ''saltsecret1'', u_phone = Undefined,
      u_dateOfBirth = Undefined, u_gender = Undefined, u_address = Undefined,
      u_city = Undefined, u_state = Undefined, u_zipCode = Undefined,
      u_country = Undefined, u_orders = 2, u_profileImage = Undefined, u_createdAt = 0\<rparr>"

definition bob_user :: user where
  "bob_user =
     \<lparr>u__id = 2, u_firstName = Val ''Bob'', u_lastName = Val ''B'',
      u_email = Val ''b@x.com'', u_password = Val ''pepperhunter2'', u_phone = Undefined,
      u_dateOfBirth = Undefined, u_gender = Undefined, u_address = Undefined,
      u_city = Undefined, u_state = Undefined, u_zipCode = Undefined,
      u_country = Undefined, u_orders = 1, u_profileImage = Undefined, u_createdAt = 0\<rparr>"

definition order7 :: order where
  "order7 =
     \<lparr>o__id = 7, o_userId = Val 1, o_id = Val ''ORD-7'', o_date = Val ''2024-01-05'',
      o_items = Val ''[]'', o_total = Val 10, o_status = Val ''Pending'',
      o_tracking = Undefined, o_paymentMethod = Val ''card'', o_address = Undefined,
      o_cancellationReason = Undefined\<rparr>"

definition order8 :: order where
  "order8 =
     \<lparr>o__id = 8, o_userId = Val 2, o_id = Val ''ORD-8'', o_date = Val ''2024-02-01'',
      o_items = Val ''[]'', o_total = Val 20, o_status = Val ''Pending'',
      o_tracking = Undefined, o_paymentMethod = Val ''card'', o_address = Undefined,
      o_cancellationReason = Undefined\<rparr>"

definition order9 :: order where
  "order9 =
     \<lparr>o__id = 9, o_userId = Val 1, o_id = Val ''ORD-9'', o_date = Val ''2024-03-01'',
      o_items = Val ''[]'', o_total = Val 30, o_status = Val ''Pending'',
      o_tracking = Val ''T0'', o_paymentMethod = Val ''cash'', o_address = Undefined,
      o_cancellationReason = Undefined\<rparr>"

definition shop :: store where
  "shop = \<lparr>users = [alice_user, bob_user], orders = [order7, order8, order9], next_id = 10\<rparr>"

definition empty_store :: store where
  "empty_store = \<lparr>users = [], orders = [], next_id = 0\<rparr>"

definition cancel_with_reason :: update_body where
  "cancel_with_reason =
     \<lparr>ub_status = Val ''Cancelled'', ub_tracking = Val ''T1'',
      ub_cancellationReason =
        Val \<lparr>reason = Val ''r'', comment = Val ''c'', cancelledAt = Val 5\<rparr>\<rparr>"

definition ship :: update_body where
  "ship = \<lparr>ub_status = Val ''Shipped'', ub_tracking = Val ''T2'',
           ub_cancellationReason = Undefined\<rparr>"

definition plain_order :: order_body where
  "plain_order =
     \<lparr>ob__id = None, ob_userId = Val 2, ob_id = Val ''ORD-1'', ob_date = Val ''2024-04-01'',
      ob_items = Undefined, ob_total = Val 5, ob_status = Val ''Pending'',
      ob_tracking = Undefined, ob_paymentMethod = Val ''card'', ob_address = Undefined,
      ob_cancellationReason = Undefined\<rparr>"

definition forged_order :: order_body where
  "forged_order =
     \<lparr>ob__id = None, ob_userId = Undefined, ob_id = Val ''ORD-2'',
      ob_date = Val ''2024-04-02'', ob_items = Undefined, ob_total = Val 5,
      ob_status = Val ''Pending'', ob_tracking = Undefined, ob_paymentMethod = Val ''card'',
      ob_address = Undefined,
      ob_cancellationReason =
        Val \<lparr>reason = Val ''x'', comment = Undefined, cancelledAt = Val 5\<rparr>\<rparr>"

definition carol_registration :: register_body where
  "carol_registration =
     \<lparr>rb_firstName = Val ''Carol'', rb_lastName = Val ''C'', rb_email = Val ''c@x.com'',
      rb_password = Val ''secret3'', rb_phone = Undefined, rb_dateOfBirth = Undefined,
      rb_gender = Undefined, rb_address = Undefined, rb_city = Undefined,
      rb_state = Undefined, rb_zipCode = Undefined, rb_country = Undefined\<rparr>"

definition new_name :: profile_body where
  "new_name =
     \<lparr>pb_firstName = Val ''Al'', pb_lastName = Undefined, pb_phone = Undefined,
      pb_dateOfBirth = Undefined, pb_gender = Undefined, pb_address = Undefined,
      pb_city = Undefined, pb_state = Undefined, pb_zipCode = Undefined,
      pb_country = Undefined, pb_profileImage = Undefined\<rparr>"

section \<open>Facts about the queries\<close>

lemma findOne_None_update_first:
  "findOne p ds = None \<Longrightarrow> update_first p f ds = ds"
  by (induction ds) (auto simp: findOne_def split: if_splits)


lemma findOne_None_iff: "findOne p ds = None \<longleftrightarrow> (\<forall>d\<in>set ds. \<not> p d)"
  by (auto simp: findOne_def find_None_iff)

lemma findOne_key:
  "distinct (map key ds) \<Longrightarrow> d \<in> set ds \<Longrightarrow> key d = k \<Longrightarrow> q d \<Longrightarrow>
   findOne (\<lambda>x. key x = k \<and> q x) ds = Some d"
  by (induction ds) (auto simp: findOne_def rev_image_eqI)

lemma update_first_key:
  "distinct (map key ds) \<Longrightarrow> d \<in> set ds \<Longrightarrow> key d = k \<Longrightarrow> q d \<Longrightarrow>
   update_first (\<lambda>x. key x = k \<and> q x) f ds = map (\<lambda>x. if key x = k then f x else x) ds"
proof (induction ds)
  case Nil
  then show ?case by simp
next
  case (Cons a ds)
  show ?case
  proof (cases "key a = k")
    case True
    with Cons.prems have "a = d" by (auto simp: rev_image_eqI)
    moreover from True Cons.prems have "\<forall>x\<in>set ds. key x \<noteq> k" by (auto simp: rev_image_eqI)
    then have "map (\<lambda>x. if key x = k then f x else x) ds = ds" by (induction ds) auto
    ultimately show ?thesis using True Cons.prems by simp
  next
    case False
    with Cons show ?thesis by auto
  qed
qed

lemma findOneAndUpdate_key:
  "distinct (map key ds) \<Longrightarrow> d \<in> set ds \<Longrightarrow> key d = k \<Longrightarrow> q d \<Longrightarrow>
   findOneAndUpdate (\<lambda>x. key x = k \<and> q x) f ds =
     (Some (f d), map (\<lambda>x. if key x = k then f x else x) ds)"
  by (simp add: findOneAndUpdate_def findOne_key update_first_key)

lemma findOneAndUpdate_id:
  "distinct (map key ds) \<Longrightarrow> d \<in> set ds \<Longrightarrow> key d = k \<Longrightarrow>
   findOneAndUpdate (\<lambda>x. key x = k) f ds =
     (Some (f d), map (\<lambda>x. if key x = k then f x else x) ds)"
  using findOneAndUpdate_key [of key ds d k "\<lambda>_. True" f] by simp


lemma update_first_map_eq:
  "(\<And>x. g (f x) = g x) \<Longrightarrow> map g (update_first p f ds) = map g ds"
  by (induction ds) auto

lemma findOneAndUpdate_snd: "snd (findOneAndUpdate p f ds) = update_first p f ds"
  by (cases "findOne p ds")
     (simp_all add: findOneAndUpdate_def findOne_None_update_first)

lemma findOneAndUpdate_Some:
  "fst (findOneAndUpdate p f ds) = Some d' \<Longrightarrow> \<exists>d\<in>set ds. p d \<and> d' = f d"
  by (auto simp: findOneAndUpdate_def findOne_def find_Some_iff split: option.splits)


lemma put_api_admin_orders_id_unfold:
  "put_api_admin_orders_id s now req_user params_id b =
     (case findOne (\<lambda>d. o__id d = params_id) (orders s) of
        None \<Rightarrow> (Error 404 ''Order not found'', s)
      | Some d \<Rightarrow>
          (Json 200 (OrderBody (apply_update (add_cancellation now b
               \<lparr>ud_status = ub_status b, ud_tracking = Undefined, ud_cancellationReason = Undefined\<rparr>) d)),
           s\<lparr>orders := update_first (\<lambda>d. o__id d = params_id)
               (apply_update (add_cancellation now b
                 \<lparr>ud_status = ub_status b, ud_tracking = Undefined, ud_cancellationReason = Undefined\<rparr>))
               (orders s)\<rparr>))"
  by (simp add: put_api_admin_orders_id_def findOneAndUpdate_def Let_def split: option.splits)

lemma put_api_orders_id_unfold:
  "put_api_orders_id s now req_user params_id b =
     (case findOne (\<lambda>d. o__id d = params_id \<and> o_userId d = Val (jwt_userId req_user))
             (orders s) of
        None \<Rightarrow> (Error 404 ''Order not found'', s)
      | Some d \<Rightarrow>
          (Json 200 (OrderBody (apply_update (add_cancellation now b
               \<lparr>ud_status = ub_status b, ud_tracking = ub_tracking b,
                ud_cancellationReason = Undefined\<rparr>) d)),
           s\<lparr>orders := update_first
               (\<lambda>d. o__id d = params_id \<and> o_userId d = Val (jwt_userId req_user))
               (apply_update (add_cancellation now b
                 \<lparr>ud_status = ub_status b, ud_tracking = ub_tracking b,
                  ud_cancellationReason = Undefined\<rparr>))
               (orders s)\<rparr>))"
  by (simp add: put_api_orders_id_def findOneAndUpdate_def Let_def split: option.splits)

lemma findOne_Some: "findOne p ds = Some d \<Longrightarrow> d \<in> set ds \<and> p d"
  by (auto simp: findOne_def find_Some_iff)

lemma add_cancellation_status [simp]:
  "ud_status (add_cancellation now b ud) = ud_status ud"
  by (simp add: add_cancellation_def split: nullable.splits)

lemma add_cancellation_tracking [simp]:
  "ud_tracking (add_cancellation now b ud) = ud_tracking ud"
  by (simp add: add_cancellation_def split: nullable.splits)


lemma findOne_update_first:
  "findOne p ds = Some d \<Longrightarrow> p (f d) \<Longrightarrow> findOne p (update_first p f ds) = Some (f d)"
  by (induction ds) (auto simp: findOne_def split: if_splits)

lemma put_api_user_password_changes:
  assumes "snd (put_api_user_password cx s salt req_user b) \<noteq> s"
  shows "\<exists>user current hashed.
           findOne (\<lambda>u. u__id u = jwt_userId req_user) (users s) = Some user
           \<and> u_password user = Val hashed \<and> currentPassword b = Val current
           \<and> bcrypt_compare cx current hashed"
  using assms
  by (auto simp: put_api_user_password_def split: option.splits nullable.splits if_splits)

lemma findOne_append_new:
  "findOne p ds = None \<Longrightarrow> p d \<Longrightarrow> findOne p (ds @ [d]) = Some d"
  by (induction ds) (auto simp: findOne_def split: if_splits)

lemma authenticateToken_signed:
  "authenticateToken cx t (Some [scheme, jwt_sign uid em (JWT_SECRET cx) expiresIn_24h T]) =
     (if t div 1000 < T div 1000 + 86400
      then Inr \<lparr>jwt_userId = uid, jwt_email = em,
                jwt_iat = T div 1000, jwt_exp = T div 1000 + 86400\<rparr>
      else Inl (Error 403 ''Invalid or expired token''))"
  by (simp add: authenticateToken_def jwt_sign_def jwt_verify_def expiresIn_24h_def)

lemma sorted_sort_date_desc:
  "sorted_wrt (\<lambda>a b. sort_value (o_date b) \<le> sort_value (o_date a)) (sort_date_desc ds)"
  using sorted_sort_key [of "\<lambda>d. sort_value (o_date d)" ds]
  by (simp add: sort_date_desc_def sorted_wrt_rev sorted_map)


section \<open>Where cancellation records come from\<close>

lemma update_first_cases:
  "d' \<in> set (update_first p f ds) \<Longrightarrow> d' \<in> set ds \<or> (\<exists>d\<in>set ds. p d \<and> d' = f d)"
  by (induction ds) (auto split: if_splits)

lemma update_first_keeps:
  "d \<in> set ds \<Longrightarrow> d \<in> set (update_first p f ds) \<or> f d \<in> set (update_first p f ds)"
  by (induction ds) auto

lemma run_append: "run cx s (xs @ ys) = run cx (run cx s xs) ys"
  by (induction xs arbitrary: s) simp_all

lemma apply_update_keys [simp]:
  "o__id (apply_update ud d) = o__id d" "o_userId (apply_update ud d) = o_userId d"
  by (simp_all add: apply_update_def)

lemma carried_keys:
  "o_userId d = o_userId d' \<Longrightarrow> carried r d = carried r d'"
  by (induction r d rule: carried.induct) simp_all

lemma stamps_keys:
  "o__id d = o__id d' \<Longrightarrow> o_userId d = o_userId d' \<Longrightarrow> stamps r d = stamps r d'"
  by (induction r d rule: stamps.induct) simp_all

lemma minimize_record_Val: "minimize_record v = Val c \<Longrightarrow> v = Val c"
  by (simp add: minimize_record_def split: if_splits)

lemma orders_put_api_orders_id:
  "orders (snd (put_api_orders_id s now req_user params_id b)) =
     update_first (\<lambda>d. o__id d = params_id \<and> o_userId d = Val (jwt_userId req_user))
       (apply_update (add_cancellation now b
          \<lparr>ud_status = ub_status b, ud_tracking = ub_tracking b,
           ud_cancellationReason = Undefined\<rparr>))
       (orders s)"
  by (simp add: put_api_orders_id_unfold findOne_None_update_first split: option.splits)

lemma orders_put_api_admin_orders_id:
  "orders (snd (put_api_admin_orders_id s now req_user params_id b)) =
     update_first (\<lambda>d. o__id d = params_id)
       (apply_update (add_cancellation now b
          \<lparr>ud_status = ub_status b, ud_tracking = Undefined,
           ud_cancellationReason = Undefined\<rparr>))
       (orders s)"
  by (simp add: put_api_admin_orders_id_unfold findOne_None_update_first split: option.splits)

lemma orders_post_api_orders:
  "orders (snd (post_api_orders cx s req_user body)) = orders s
   \<or> (\<exists>b. body = Castable b
        \<and> o__id (new_Order (next_id s) (b\<lparr>ob_userId := Val (jwt_userId req_user)\<rparr>))
            \<notin> set (map o__id (orders s))
        \<and> orders (snd (post_api_orders cx s req_user body)) =
            orders s @ [new_Order (next_id s) (b\<lparr>ob_userId := Val (jwt_userId req_user)\<rparr>)])"
  by (cases body) (simp_all add: post_api_orders_def Let_def)

lemma record_after_update:
  assumes "o_cancellationReason (apply_update (add_cancellation now b ud0) d) = Val c"
    and "ud_cancellationReason ud0 = Undefined"
  shows "o_cancellationReason d = Val c
         \<or> (\<exists>given. ub_status b = Val ''Cancelled'' \<and> ub_cancellationReason b = Val given
              \<and> c = \<lparr>reason = reason given, comment = comment given, cancelledAt = Val now\<rparr>)"
  using assms
  by (auto simp: apply_update_def add_cancellation_def set_path_def
           split: nullable.splits if_splits)

lemma serve_origin:
  assumes "d' \<in> set (orders (snd (serve cx s r)))" and "o_cancellationReason d' = Val c"
  shows "(\<exists>d\<in>set (orders s). o__id d = o__id d' \<and> o_userId d = o_userId d'
             \<and> o_cancellationReason d = Val c)
         \<or> carried r d' = Some c \<or> stamps r d' = Some c"
proof (cases r)
  case (PostOrder req_user body)
  from orders_post_api_orders [of cx s req_user body]
  show ?thesis
  proof
    assume "orders (snd (post_api_orders cx s req_user body)) = orders s"
    with assms PostOrder show ?thesis by auto
  next
    assume "\<exists>b. body = Castable b
        \<and> o__id (new_Order (next_id s) (b\<lparr>ob_userId := Val (jwt_userId req_user)\<rparr>))
            \<notin> set (map o__id (orders s))
        \<and> orders (snd (post_api_orders cx s req_user body)) =
            orders s @ [new_Order (next_id s) (b\<lparr>ob_userId := Val (jwt_userId req_user)\<rparr>)]"
    then obtain b where b: "body = Castable b"
      "orders (snd (post_api_orders cx s req_user body)) =
         orders s @ [new_Order (next_id s) (b\<lparr>ob_userId := Val (jwt_userId req_user)\<rparr>)]"
      by blast
    with assms(1) PostOrder
    consider "d' \<in> set (orders s)"
      | "d' = new_Order (next_id s) (b\<lparr>ob_userId := Val (jwt_userId req_user)\<rparr>)"
      by auto
    then show ?thesis
    proof cases
      case 1
      with assms(2) show ?thesis by blast
    next
      case 2
      with assms(2) have "ob_cancellationReason b = Val c"
        by (simp add: new_Order_def minimize_record_Val)
      with 2 b(1) PostOrder have "carried r d' = Some c"
        by (simp add: new_Order_def)
      then show ?thesis by simp
    qed
  qed
next
  case (PutOrder now req_user params_id b)
  let ?p = "\<lambda>d. o__id d = params_id \<and> o_userId d = Val (jwt_userId req_user)"
  let ?f = "apply_update (add_cancellation now b
     \<lparr>ud_status = ub_status b, ud_tracking = ub_tracking b,
      ud_cancellationReason = Undefined\<rparr>)"
  from assms(1) PutOrder have "d' \<in> set (update_first ?p ?f (orders s))"
    by (simp add: orders_put_api_orders_id)
  then consider "d' \<in> set (orders s)" | d where "d \<in> set (orders s)" "?p d" "d' = ?f d"
    using update_first_cases [of d' ?p ?f "orders s"] by blast
  then show ?thesis
  proof cases
    case 1
    with assms(2) show ?thesis by blast
  next
    case 2
    from record_after_update [of now b _ d c] assms(2) 2(3)
    have "o_cancellationReason d = Val c
      \<or> (\<exists>given. ub_status b = Val ''Cancelled'' \<and> ub_cancellationReason b = Val given
        \<and> c = \<lparr>reason = reason given, comment = comment given, cancelledAt = Val now\<rparr>)"
      by simp
    then show ?thesis
    proof
      assume "o_cancellationReason d = Val c"
      with 2 show ?thesis by auto
    next
      assume "\<exists>given. ub_status b = Val ''Cancelled'' \<and> ub_cancellationReason b = Val given
        \<and> c = \<lparr>reason = reason given, comment = comment given, cancelledAt = Val now\<rparr>"
      with 2 PutOrder have "stamps r d' = Some c" by auto
      then show ?thesis by simp
    qed
  qed
next
  case (PutAdminOrder now req_user params_id b)
  let ?p = "\<lambda>d. o__id d = params_id"
  let ?f = "apply_update (add_cancellation now b
     \<lparr>ud_status = ub_status b, ud_tracking = Undefined, ud_cancellationReason = Undefined\<rparr>)"
  from assms(1) PutAdminOrder have "d' \<in> set (update_first ?p ?f (orders s))"
    by (simp add: orders_put_api_admin_orders_id)
  then consider "d' \<in> set (orders s)" | d where "d \<in> set (orders s)" "?p d" "d' = ?f d"
    using update_first_cases [of d' ?p ?f "orders s"] by blast
  then show ?thesis
  proof cases
    case 1
    with assms(2) show ?thesis by blast
  next
    case 2
    from record_after_update [of now b _ d c] assms(2) 2(3)
    have "o_cancellationReason d = Val c
      \<or> (\<exists>given. ub_status b = Val ''Cancelled'' \<and> ub_cancellationReason b = Val given
        \<and> c = \<lparr>reason = reason given, comment = comment given, cancelledAt = Val now\<rparr>)"
      by simp
    then show ?thesis
    proof
      assume "o_cancellationReason d = Val c"
      with 2 show ?thesis by auto
    next
      assume "\<exists>given. ub_status b = Val ''Cancelled'' \<and> ub_cancellationReason b = Val given
        \<and> c = \<lparr>reason = reason given, comment = comment given, cancelledAt = Val now\<rparr>"
      with 2 PutAdminOrder have "stamps r d' = Some c" by auto
      then show ?thesis by simp
    qed
  qed
qed

lemma run_origin:
  "d' \<in> set (orders (run cx s rs)) \<Longrightarrow> o_cancellationReason d' = Val c \<Longrightarrow>
   (\<exists>d\<in>set (orders s). o__id d = o__id d' \<and> o_userId d = o_userId d'
       \<and> o_cancellationReason d = Val c)
   \<or> (\<exists>r\<in>set rs. carried r d' = Some c) \<or> (\<exists>r\<in>set rs. stamps r d' = Some c)"
proof (induction rs arbitrary: s)
  case Nil
  then show ?case by auto
next
  case (Cons r rs)
  from Cons.IH [of "snd (serve cx s r)"] Cons.prems
  consider d where "d \<in> set (orders (snd (serve cx s r)))" "o__id d = o__id d'"
      "o_userId d = o_userId d'" "o_cancellationReason d = Val c"
    | "\<exists>r\<in>set rs. carried r d' = Some c" | "\<exists>r\<in>set rs. stamps r d' = Some c"
    by auto
  then show ?case
  proof cases
    case 1
    from serve_origin [OF 1(1) 1(4)]
    show ?thesis
      using 1(2,3) carried_keys [of d d' r] stamps_keys [of d d' r]
      by auto
  next
    case 2
    then show ?thesis by auto
  next
    case 3
    then show ?thesis by auto
  qed
qed

lemma distinct_orders_serve:
  assumes "distinct (map o__id (orders s))"
  shows "distinct (map o__id (orders (snd (serve cx s r))))"
proof (cases r)
  case (PostOrder req_user body)
  from orders_post_api_orders [of cx s req_user body] assms PostOrder
  show ?thesis by auto
next
  case (PutOrder now req_user params_id b)
  have "map o__id (orders (snd (put_api_orders_id s now req_user params_id b))) =
      map o__id (orders s)"
    unfolding orders_put_api_orders_id by (rule update_first_map_eq) simp
  with assms PutOrder show ?thesis by simp
next
  case (PutAdminOrder now req_user params_id b)
  have "map o__id (orders (snd (put_api_admin_orders_id s now req_user params_id b))) =
      map o__id (orders s)"
    unfolding orders_put_api_admin_orders_id by (rule update_first_map_eq) simp
  with assms PutAdminOrder show ?thesis by simp
qed

lemma distinct_orders_run:
  "distinct (map o__id (orders s)) \<Longrightarrow> distinct (map o__id (orders (run cx s rs)))"
  by (induction rs arbitrary: s) (simp_all add: distinct_orders_serve)

lemma stamps_written:
  assumes "stamps r d0 = Some c"
    and "r = PutOrder now' req_user params_id b' \<or> r = PutAdminOrder now' req_user params_id b'"
    and "ud_status ud0 = ub_status b'"
  shows "o_status (apply_update (add_cancellation now' b' ud0) x) = Val ''Cancelled''
         \<and> o_cancellationReason (apply_update (add_cancellation now' b' ud0) x) = Val c"
  using assms
  by (auto simp: apply_update_def add_cancellation_def set_path_def
           split: nullable.splits if_splits)

lemma map_update_by_id:
  assumes "d0 \<in> set ds" and "o__id d0 = i"
    and "\<And>x. o__id (f x) = o__id x" and "\<And>x. P (f x)"
  shows "(\<exists>d\<in>set (map (\<lambda>x. if o__id x = i then f x else x) ds). o__id d = i)
         \<and> (\<forall>d\<in>set (map (\<lambda>x. if o__id x = i then f x else x) ds). o__id d = i \<longrightarrow> P d)"
proof
  have "f d0 \<in> set (map (\<lambda>x. if o__id x = i then f x else x) ds)"
    using assms(1,2) by (auto simp: image_iff intro!: bexI [of _ d0])
  moreover have "o__id (f d0) = i"
    using assms(2,3) by simp
  ultimately show "\<exists>d\<in>set (map (\<lambda>x. if o__id x = i then f x else x) ds). o__id d = i"
    by blast
next
  show "\<forall>d\<in>set (map (\<lambda>x. if o__id x = i then f x else x) ds). o__id d = i \<longrightarrow> P d"
    using assms(3,4) by (auto split: if_splits)
qed

lemma stamps_applied:
  assumes "distinct (map o__id (orders s))" and "d0 \<in> set (orders s)"
    and "stamps r d0 = Some c"
  shows "(\<exists>d\<in>set (orders (snd (serve cx s r))). o__id d = o__id d0)
         \<and> (\<forall>d\<in>set (orders (snd (serve cx s r))). o__id d = o__id d0 \<longrightarrow>
              o_status d = Val ''Cancelled'' \<and> o_cancellationReason d = Val c)"
proof (cases r)
  case (PostOrder req_user body)
  with assms(3) show ?thesis by simp
next
  case (PutOrder now req_user params_id b)
  let ?f = "apply_update (add_cancellation now b
     \<lparr>ud_status = ub_status b, ud_tracking = ub_tracking b,
      ud_cancellationReason = Undefined\<rparr>)"
  from assms(3) PutOrder have k: "o__id d0 = params_id" "o_userId d0 = Val (jwt_userId req_user)"
    by (simp_all split: if_splits)
  have eq: "orders (snd (serve cx s r)) =
      map (\<lambda>x. if o__id x = params_id then ?f x else x) (orders s)"
    using update_first_key [OF assms(1,2) k(1), of "\<lambda>d. o_userId d = Val (jwt_userId req_user)" ?f]
      k(2) PutOrder
    by (simp add: orders_put_api_orders_id)
  have w: "o_status (?f x) = Val ''Cancelled'' \<and> o_cancellationReason (?f x) = Val c" for x
    using stamps_written [OF assms(3), of now req_user params_id b] PutOrder by simp
  have i: "o__id (?f x) = o__id x" for x
    by simp
  have "(\<exists>d\<in>set (map (\<lambda>x. if o__id x = params_id then ?f x else x) (orders s)).
            o__id d = params_id)
        \<and> (\<forall>d\<in>set (map (\<lambda>x. if o__id x = params_id then ?f x else x) (orders s)).
            o__id d = params_id \<longrightarrow>
            o_status d = Val ''Cancelled'' \<and> o_cancellationReason d = Val c)"
    using assms(2) k(1) i w by (rule map_update_by_id)
  then show ?thesis
    unfolding eq k(1) .
next
  case (PutAdminOrder now req_user params_id b)
  let ?f = "apply_update (add_cancellation now b
     \<lparr>ud_status = ub_status b, ud_tracking = Undefined, ud_cancellationReason = Undefined\<rparr>)"
  from assms(3) PutAdminOrder have k: "o__id d0 = params_id"
    by (simp_all split: if_splits)
  have eq: "orders (snd (serve cx s r)) =
      map (\<lambda>x. if o__id x = params_id then ?f x else x) (orders s)"
    using update_first_key [OF assms(1,2) k(1), of "\<lambda>d. True" ?f] PutAdminOrder
    by (simp add: orders_put_api_admin_orders_id)
  have w: "o_status (?f x) = Val ''Cancelled'' \<and> o_cancellationReason (?f x) = Val c" for x
    using stamps_written [OF assms(3), of now req_user params_id b] PutAdminOrder by simp
  have i: "o__id (?f x) = o__id x" for x
    by simp
  have "(\<exists>d\<in>set (map (\<lambda>x. if o__id x = params_id then ?f x else x) (orders s)).
            o__id d = params_id)
        \<and> (\<forall>d\<in>set (map (\<lambda>x. if o__id x = params_id then ?f x else x) (orders s)).
            o__id d = params_id \<longrightarrow>
            o_status d = Val ''Cancelled'' \<and> o_cancellationReason d = Val c)"
    using assms(2) k(1) i w by (rule map_update_by_id)
  then show ?thesis
    unfolding eq k(1) .
qed

lemma record_kept_by_update:
  "o_cancellationReason d = Val c \<Longrightarrow> ud_cancellationReason ud0 = Undefined \<Longrightarrow>
   \<exists>c'. o_cancellationReason (apply_update (add_cancellation now b ud0) d) = Val c'"
  by (auto simp: apply_update_def add_cancellation_def set_path_def split: nullable.splits)

lemma serve_keeps_record:
  assumes "d \<in> set (orders s)" and "o_cancellationReason d = Val c"
  shows "\<exists>d'\<in>set (orders (snd (serve cx s r))).
           o__id d' = o__id d \<and> (\<exists>c'. o_cancellationReason d' = Val c')"
proof (cases r)
  case (PostOrder req_user body)
  from orders_post_api_orders [of cx s req_user body] assms PostOrder
  show ?thesis by auto
next
  case (PutOrder now req_user params_id b)
  let ?p = "\<lambda>d. o__id d = params_id \<and> o_userId d = Val (jwt_userId req_user)"
  let ?f = "apply_update (add_cancellation now b
     \<lparr>ud_status = ub_status b, ud_tracking = ub_tracking b,
      ud_cancellationReason = Undefined\<rparr>)"
  from update_first_keeps [OF assms(1), of ?p ?f]
  have "d \<in> set (orders (snd (serve cx s r))) \<or> ?f d \<in> set (orders (snd (serve cx s r)))"
    using PutOrder by (simp add: orders_put_api_orders_id)
  then show ?thesis
  proof
    assume "d \<in> set (orders (snd (serve cx s r)))"
    with assms(2) show ?thesis by blast
  next
    assume "?f d \<in> set (orders (snd (serve cx s r)))"
    moreover from record_kept_by_update [OF assms(2), of _ now b]
    have "\<exists>c'. o_cancellationReason (?f d) = Val c'" by simp
    ultimately show ?thesis by (intro bexI [of _ "?f d"]) simp_all
  qed
next
  case (PutAdminOrder now req_user params_id b)
  let ?p = "\<lambda>d. o__id d = params_id"
  let ?f = "apply_update (add_cancellation now b
     \<lparr>ud_status = ub_status b, ud_tracking = Undefined, ud_cancellationReason = Undefined\<rparr>)"
  from update_first_keeps [OF assms(1), of ?p ?f]
  have "d \<in> set (orders (snd (serve cx s r))) \<or> ?f d \<in> set (orders (snd (serve cx s r)))"
    using PutAdminOrder by (simp add: orders_put_api_admin_orders_id)
  then show ?thesis
  proof
    assume "d \<in> set (orders (snd (serve cx s r)))"
    with assms(2) show ?thesis by blast
  next
    assume "?f d \<in> set (orders (snd (serve cx s r)))"
    moreover from record_kept_by_update [OF assms(2), of _ now b]
    have "\<exists>c'. o_cancellationReason (?f d) = Val c'" by simp
    ultimately show ?thesis by (intro bexI [of _ "?f d"]) simp_all
  qed
qed

lemma run_keeps_record:
  "d \<in> set (orders s) \<Longrightarrow> o_cancellationReason d = Val c \<Longrightarrow>
   \<exists>d'\<in>set (orders (run cx s rs)). o__id d' = o__id d \<and> (\<exists>c'. o_cancellationReason d' = Val c')"
proof (induction rs arbitrary: s d c)
  case Nil
  then show ?case by auto
next
  case (Cons r rs)
  from serve_keeps_record [OF Cons.prems, of cx r]
  obtain d1 c1 where "d1 \<in> set (orders (snd (serve cx s r)))" "o__id d1 = o__id d"
    "o_cancellationReason d1 = Val c1"
    by blast
  with Cons.IH [of d1 "snd (serve cx s r)" c1] show ?case by auto
qed

section \<open>Unique ids\<close>

lemma ids_fresh_new_user:
  assumes "ids_fresh s" and "u__id u = next_id s"
  shows "ids_fresh (s\<lparr>users := users s @ [u], next_id := Suc (next_id s)\<rparr>)"
  using assms by (auto simp: ids_fresh_def list_all_iff less_Suc_eq)

lemma ids_fresh_users:
  assumes "ids_fresh s" and "map u__id us = map u__id (users s)"
  shows "ids_fresh (s\<lparr>users := us\<rparr>)"
  using assms by (simp add: ids_fresh_def)

lemma ids_fresh_orders:
  assumes "ids_fresh s" and "map o__id ds = map o__id (orders s)"
  shows "ids_fresh (s\<lparr>orders := ds\<rparr>)"
  using assms by (simp add: ids_fresh_def)

lemma ids_fresh_register:
  assumes "ids_fresh s"
  shows "ids_fresh (snd (post_api_register cx s now salt b))"
proof (cases "findOne (\<lambda>u. matches (rb_email b) (u_email u)) (users s)")
  case (Some existingUser)
  with assms show ?thesis by (simp add: post_api_register_def)
next
  case None
  show ?thesis
  proof (cases "rb_password b")
    case (Val password)
    with \<open>findOne _ _ = None\<close> ids_fresh_new_user [OF assms] show ?thesis
      by (simp add: post_api_register_def Let_def)
  qed (use \<open>findOne _ _ = None\<close> assms in \<open>simp_all add: post_api_register_def\<close>)
qed

lemma ids_fresh_stored_order:
  assumes "ids_fresh s" and "o__id d \<notin> set (map o__id (orders s))"
  shows "ids_fresh (s\<lparr>orders := orders s @ [d], next_id := Suc (max (next_id s) (o__id d))\<rparr>)"
  using assms by (auto simp: ids_fresh_def list_all_iff less_Suc_eq_le max_def)

lemma ids_fresh_post_order:
  assumes "ids_fresh s"
  shows "ids_fresh (snd (post_api_orders cx s req_user body))"
proof (cases body)
  case (Uncastable message)
  with assms show ?thesis by (simp add: post_api_orders_def)
next
  case (Castable b)
  let ?d = "new_Order (next_id s) (b\<lparr>ob_userId := Val (jwt_userId req_user)\<rparr>)"
  let ?s1 = "s\<lparr>orders := orders s @ [?d], next_id := Suc (max (next_id s) (o__id ?d))\<rparr>"
  let ?us = "update_first (\<lambda>u. u__id u = jwt_userId req_user)
               (\<lambda>u. u\<lparr>u_orders := u_orders u + 1\<rparr>) (users ?s1)"
  show ?thesis
  proof (cases "o__id ?d \<in> set (map o__id (orders s))")
    case True
    with assms Castable show ?thesis by (simp add: post_api_orders_def Let_def)
  next
    case False
    with assms have 1: "ids_fresh ?s1"
      by (rule ids_fresh_stored_order)
    have "map u__id ?us = map u__id (users ?s1)"
      by (rule update_first_map_eq) simp
    with 1 have "ids_fresh (?s1\<lparr>users := ?us\<rparr>)"
      by (rule ids_fresh_users)
    with False Castable show ?thesis
      by (simp add: post_api_orders_def Let_def findOneAndUpdate_snd)
  qed
qed

lemma ids_fresh_put_order:
  assumes "ids_fresh s"
  shows "ids_fresh (snd (put_api_orders_id s now req_user params_id b))"
proof (cases "findOne (\<lambda>d. o__id d = params_id \<and> o_userId d = Val (jwt_userId req_user))
                (orders s)")
  case None
  with assms show ?thesis by (simp add: put_api_orders_id_unfold)
next
  case (Some d)
  have "ids_fresh (s\<lparr>orders := update_first
          (\<lambda>d. o__id d = params_id \<and> o_userId d = Val (jwt_userId req_user))
          (apply_update (add_cancellation now b
             \<lparr>ud_status = ub_status b, ud_tracking = ub_tracking b,
              ud_cancellationReason = Undefined\<rparr>)) (orders s)\<rparr>)"
    using assms by (rule ids_fresh_orders) (rule update_first_map_eq, simp)
  with Some show ?thesis by (simp add: put_api_orders_id_unfold)
qed

lemma ids_fresh_put_admin_order:
  assumes "ids_fresh s"
  shows "ids_fresh (snd (put_api_admin_orders_id s now req_user params_id b))"
proof (cases "findOne (\<lambda>d. o__id d = params_id) (orders s)")
  case None
  with assms show ?thesis by (simp add: put_api_admin_orders_id_unfold)
next
  case (Some d)
  have "ids_fresh (s\<lparr>orders := update_first (\<lambda>d. o__id d = params_id)
          (apply_update (add_cancellation now b
             \<lparr>ud_status = ub_status b, ud_tracking = Undefined,
              ud_cancellationReason = Undefined\<rparr>)) (orders s)\<rparr>)"
    using assms by (rule ids_fresh_orders) (rule update_first_map_eq, simp)
  with Some show ?thesis by (simp add: put_api_admin_orders_id_unfold)
qed

lemma ids_fresh_serve: "ids_fresh s \<Longrightarrow> ids_fresh (snd (serve cx s r))"
  by (cases r) (simp_all add: ids_fresh_post_order ids_fresh_put_order ids_fresh_put_admin_order)

lemma ids_fresh_run: "ids_fresh s \<Longrightarrow> ids_fresh (run cx s rs)"
  by (induction rs arbitrary: s) (simp_all add: ids_fresh_serve)

lemma ids_fresh_put_user_password:
  assumes "ids_fresh s"
  shows "ids_fresh (snd (put_api_user_password cx s salt req_user b))"
proof -
  have "ids_fresh (s\<lparr>users := update_first p (\<lambda>u. u\<lparr>u_password := h\<rparr>) (users s)\<rparr>)" for p h
    using assms by (rule ids_fresh_users) (rule update_first_map_eq, simp)
  with assms show ?thesis
    by (simp add: put_api_user_password_def split: option.splits nullable.splits)
qed

lemma ids_fresh_shop: "ids_fresh shop"
  by (simp add: ids_fresh_def shop_def alice_user_def bob_user_def order7_def order8_def
        order9_def)

lemma ids_fresh_put_user:
  assumes "ids_fresh s"
  shows "ids_fresh (snd (put_api_user s req_user b))"
proof -
  have "ids_fresh (s\<lparr>users := update_first p f (users s)\<rparr>)"
    if "\<And>u. u__id (f u) = u__id u" for p f
    using assms by (rule ids_fresh_users) (rule update_first_map_eq, rule that)
  with assms show ?thesis
    by (simp add: put_api_user_def findOneAndUpdate_def findOne_None_update_first
          split: option.splits)
qed

lemma ids_fresh_distinct:
  "ids_fresh s \<Longrightarrow> distinct (map u__id (users s)) \<and> distinct (map o__id (orders s))"
  by (simp add: ids_fresh_def)

lemma protected_refused:
  "authenticateToken cx now authHeader = Inl answer \<Longrightarrow>
   protected cx now authHeader s handler = (answer, s)"
  by (simp add: protected_def)

section \<open>A profile request without a stored user\<close>

lemma get_api_user_missing:
  "findOne (\<lambda>u. u__id u = jwt_userId req_user) (users s) = None \<Longrightarrow>
   get_api_user s req_user = (Error 404 ''User not found'', s)"
  by (simp add: get_api_user_def)

lemma put_api_user_missing:
  "findOne (\<lambda>u. u__id u = jwt_userId req_user) (users s) = None \<Longrightarrow>
   put_api_user s req_user b = (Json 200 (UserBody None), s)"
  by (simp add: put_api_user_def findOneAndUpdate_def)

section \<open>The tokens the handlers issue\<close>

lemma post_api_register_token:
  "post_api_register cx s T salt b = (Json c (AuthBody m tok summary), s') \<Longrightarrow>
   tok = jwt_sign (next_id s) (rb_email b) (JWT_SECRET cx) expiresIn_24h T"
  by (auto simp: post_api_register_def Let_def split: option.splits nullable.splits)

lemma post_api_login_token:
  "post_api_login cx s T b = (Json c (AuthBody m tok summary), s') \<Longrightarrow>
   \<exists>user\<in>set (users s). tok = jwt_sign (u__id user) (u_email user) (JWT_SECRET cx) expiresIn_24h T"
  by (auto simp: post_api_login_def Let_def split: option.splits nullable.splits if_splits
           dest!: findOne_Some)

section \<open>The claims\<close>

subsection \<open>C1: cancelling through PUT /api/orders/:id\<close>

text \<open>
  C1. A self-service update (PUT /api/orders/:id) of an order the caller owns, with the new
  status \<open>Cancelled\<close>: when a \<open>cancellationReason\<close> is supplied, the stored cancellation
  record is the supplied reason and comment with \<open>cancelledAt\<close> set to the server's clock at
  the call, whatever record the order had before and whatever \<open>cancelledAt\<close> the client
  sent; when no reason is supplied, the cancellation record is left as it was. The order
  returned is the stored one, and no other order changes.
\<close>

theorem put_order_cancelled_record:
  assumes "d \<in> set (orders s)" and "o__id d = params_id"
    and "o_userId d = Val (jwt_userId req_user)"
    and "distinct (map o__id (orders s))"
    and "ub_status b = Val ''Cancelled''"
  shows "put_api_orders_id s now req_user params_id b =
           (Json 200 (OrderBody
              (d\<lparr>o_status := Val ''Cancelled'',
                 o_tracking := set_path (ub_tracking b) (o_tracking d),
                 o_cancellationReason :=
                   (case ub_cancellationReason b of
                      Val given \<Rightarrow>
                        Val \<lparr>reason = reason given, comment = comment given,
                              cancelledAt = Val now\<rparr>
                    | _ \<Rightarrow> o_cancellationReason d)\<rparr>)),
            s\<lparr>orders :=
                map (\<lambda>x. if o__id x = params_id
                          then x\<lparr>o_status := Val ''Cancelled'',
                                 o_tracking := set_path (ub_tracking b) (o_tracking x),
                                 o_cancellationReason :=
                                   (case ub_cancellationReason b of
                                      Val given \<Rightarrow>
                                        Val \<lparr>reason = reason given, comment = comment given,
                                              cancelledAt = Val now\<rparr>
                                    | _ \<Rightarrow> o_cancellationReason x)\<rparr>
                          else x) (orders s)\<rparr>)"
proof -
  let ?ud = "add_cancellation now b
               \<lparr>ud_status = ub_status b, ud_tracking = ub_tracking b, ud_cancellationReason = Undefined\<rparr>"
  have upd: "apply_update ?ud x =
          x\<lparr>o_status := Val ''Cancelled'',
            o_tracking := set_path (ub_tracking b) (o_tracking x),
            o_cancellationReason :=
              (case ub_cancellationReason b of
                 Val given \<Rightarrow>
                   Val \<lparr>reason = reason given, comment = comment given,
                         cancelledAt = Val now\<rparr>
               | _ \<Rightarrow> o_cancellationReason x)\<rparr>" for x
    using assms(5)
    by (cases "ub_cancellationReason b")
       (simp_all add: apply_update_def add_cancellation_def set_path_def)
  have "findOneAndUpdate
          (\<lambda>x. o__id x = params_id \<and> o_userId x = Val (jwt_userId req_user))
          (apply_update ?ud) (orders s) =
        (Some (apply_update ?ud d),
         map (\<lambda>x. if o__id x = params_id then apply_update ?ud x else x) (orders s))"
    using assms(1-4) by (rule_tac findOneAndUpdate_key) auto
  then show ?thesis
    by (simp add: put_api_orders_id_def upd)
qed

theorem put_order_cancelled_record_witness:
  "order7 \<in> set (orders shop) \<and> o__id order7 = 7
   \<and> o_userId order7 = Val (jwt_userId alice)
   \<and> distinct (map o__id (orders shop))
   \<and> ub_status cancel_with_reason = Val ''Cancelled''
   \<and> put_api_orders_id shop 1000 alice 7 cancel_with_reason =
       (Json 200 (OrderBody
          (order7\<lparr>o_status := Val ''Cancelled'', o_tracking := Val ''T1'',
                  o_cancellationReason :=
                    Val \<lparr>reason = Val ''r'', comment = Val ''c'',
                          cancelledAt = Val 1000\<rparr>\<rparr>)),
        shop\<lparr>orders :=
               [order7\<lparr>o_status := Val ''Cancelled'', o_tracking := Val ''T1'',
                       o_cancellationReason :=
                         Val \<lparr>reason = Val ''r'', comment = Val ''c'',
                               cancelledAt = Val 1000\<rparr>\<rparr>,
                order8, order9]\<rparr>)"
  using put_order_cancelled_record [of order7 shop 7 alice cancel_with_reason 1000]
  by (simp add: shop_def order7_def order8_def order9_def alice_def cancel_with_reason_def
        set_path_def)

subsection \<open>C2: when an order carries a cancellation record\<close>

text \<open>
  C2, as claimed: in every reachable state an order carries a cancellation record exactly
  when its status is \<open>Cancelled\<close> and the cancelling update supplied a reason, with a
  \<open>cancelledAt\<close> assigned by the server. Two runs from the empty store break it. In the
  first an order is created, cancelled with a reason at time 1000 and then set to
  \<open>Shipped\<close>: the record stays on an order that is no longer cancelled. In the second the
  creation body itself carries a \<open>cancellationReason\<close>: the order is stored \<open>Pending\<close> with
  that record and the client's \<open>cancelledAt = 5\<close>.
\<close>

theorem cancellation_record_counterexample:
  "orders (run example_ctx empty_store
      [PostOrder alice (Castable plain_order), PutOrder 1000 alice 0 cancel_with_reason,
       PutOrder 2000 alice 0 ship]) =
     [\<lparr>o__id = 0, o_userId = Val 1, o_id = Val ''ORD-1'', o_date = Val ''2024-04-01'',
       o_items = Val ''[]'', o_total = Val 5, o_status = Val ''Shipped'',
       o_tracking = Val ''T2'', o_paymentMethod = Val ''card'', o_address = Undefined,
       o_cancellationReason =
         Val \<lparr>reason = Val ''r'', comment = Val ''c'', cancelledAt = Val 1000\<rparr>\<rparr>]
   \<and> orders (run example_ctx empty_store [PostOrder alice (Castable forged_order)]) =
     [\<lparr>o__id = 0, o_userId = Val 1, o_id = Val ''ORD-2'', o_date = Val ''2024-04-02'',
       o_items = Val ''[]'', o_total = Val 5, o_status = Val ''Pending'',
       o_tracking = Undefined, o_paymentMethod = Val ''card'', o_address = Undefined,
       o_cancellationReason =
         Val \<lparr>reason = Val ''x'', comment = Undefined, cancelledAt = Val 5\<rparr>\<rparr>]"
  by (simp add: empty_store_def alice_def plain_order_def forged_order_def
        cancel_with_reason_def ship_def post_api_orders_def new_Order_def
        minimize_record_def minimize_json_def
        put_api_orders_id_unfold findOneAndUpdate_def findOne_def apply_update_def
        add_cancellation_def set_path_def Let_def)

text \<open>
  C2, amended. In every state reached from a store without orders through order creations
  and self-service and admin updates:
  \<^item> a cancellation record found on a stored order was either carried by the body of a
    creation request of the order's owner, or written by an update of that order
    (self-service by its owner, or admin) whose new status was \<open>Cancelled\<close> and which
    supplied a reason; in that case it holds the supplied reason and comment and the
    server's clock at that update as \<open>cancelledAt\<close>, not a value of the client;
  \<^item> when such an update is made to an order that is stored, then right after it the order
    is stored with the status \<open>Cancelled\<close> and exactly that record, and in every later state
    the order still carries a cancellation record, whatever its status has become.
\<close>

theorem cancellation_record_origin:
  assumes "orders s = []"
  shows "(\<forall>d\<in>set (orders (run cx s rs)). \<forall>c. o_cancellationReason d = Val c \<longrightarrow>
            (\<exists>r\<in>set rs. carried r d = Some c) \<or> (\<exists>r\<in>set rs. stamps r d = Some c))
         \<and> (\<forall>d0\<in>set (orders (run cx s rs)). \<forall>r c. stamps r d0 = Some c \<longrightarrow>
              (\<exists>d\<in>set (orders (run cx s (rs @ [r]))). o__id d = o__id d0)
              \<and> (\<forall>d\<in>set (orders (run cx s (rs @ [r]))). o__id d = o__id d0 \<longrightarrow>
                   o_status d = Val ''Cancelled'' \<and> o_cancellationReason d = Val c)
              \<and> (\<forall>later. \<exists>d\<in>set (orders (run cx s (rs @ r # later))).
                   o__id d = o__id d0 \<and> (\<exists>c'. o_cancellationReason d = Val c')))"
proof -
  have a: "(\<exists>r\<in>set rs. carried r d = Some c) \<or> (\<exists>r\<in>set rs. stamps r d = Some c)"
    if "d \<in> set (orders (run cx s rs))" "o_cancellationReason d = Val c" for d c
    using run_origin [OF that] assms by simp
  have dist: "distinct (map o__id (orders (run cx s rs)))"
    using distinct_orders_run [of s cx rs] assms by simp
  have step: "run cx s (rs @ [r]) = snd (serve cx (run cx s rs) r)" for r
    by (simp add: run_append)
  have b: "(\<exists>d\<in>set (orders (run cx s (rs @ [r]))). o__id d = o__id d0)
        \<and> (\<forall>d\<in>set (orders (run cx s (rs @ [r]))). o__id d = o__id d0 \<longrightarrow>
             o_status d = Val ''Cancelled'' \<and> o_cancellationReason d = Val c)"
    if "d0 \<in> set (orders (run cx s rs))" "stamps r d0 = Some c" for d0 r c
    unfolding step using dist that by (rule stamps_applied)
  have c: "\<exists>d\<in>set (orders (run cx s (rs @ r # later))).
             o__id d = o__id d0 \<and> (\<exists>c'. o_cancellationReason d = Val c')"
    if "d0 \<in> set (orders (run cx s rs))" "stamps r d0 = Some c" for d0 r c later
  proof -
    from b [OF that] obtain d1 where d1: "d1 \<in> set (orders (run cx s (rs @ [r])))"
      "o__id d1 = o__id d0" "o_cancellationReason d1 = Val c"
      by blast
    have "run cx s (rs @ r # later) = run cx (run cx s (rs @ [r])) later"
      by (simp add: run_append)
    with run_keeps_record [OF d1(1,3), of cx later] d1(2) show ?thesis by auto
  qed
  from a b c show ?thesis by blast
qed

theorem cancellation_record_origin_witness:
  "orders empty_store = []
   \<and> orders (run example_ctx empty_store [PostOrder alice (Castable plain_order)]) =
       [new_Order 0 (plain_order\<lparr>ob_userId := Val 1\<rparr>)]
   \<and> stamps (PutOrder 1000 alice 0 cancel_with_reason)
        (new_Order 0 (plain_order\<lparr>ob_userId := Val 1\<rparr>)) =
       Some \<lparr>reason = Val ''r'', comment = Val ''c'', cancelledAt = Val 1000\<rparr>
   \<and> (\<exists>d\<in>set (orders (run example_ctx empty_store
                [PostOrder alice (Castable plain_order),
                 PutOrder 1000 alice 0 cancel_with_reason])).
         o__id d = 0 \<and> o_status d = Val ''Cancelled''
         \<and> o_cancellationReason d =
             Val \<lparr>reason = Val ''r'', comment = Val ''c'', cancelledAt = Val 1000\<rparr>)
   \<and> (\<exists>d\<in>set (orders (run example_ctx empty_store
                [PostOrder alice (Castable plain_order),
                 PutOrder 1000 alice 0 cancel_with_reason, PutOrder 2000 alice 0 ship])).
         o__id d = 0 \<and> (\<exists>c'. o_cancellationReason d = Val c'))"
proof -
  let ?rs = "[PostOrder alice (Castable plain_order)]"
  let ?r = "PutOrder 1000 alice 0 cancel_with_reason"
  let ?d0 = "new_Order 0 (plain_order\<lparr>ob_userId := Val 1\<rparr>)"
  let ?c = "\<lparr>reason = Val ''r'', comment = Val ''c'', cancelledAt = Val 1000\<rparr>"
  have e: "orders empty_store = []"
    by (simp add: empty_store_def)
  have o: "orders (run example_ctx empty_store ?rs) = [?d0]"
    by (simp add: empty_store_def alice_def post_api_orders_def Let_def new_Order_def)
  have st: "stamps ?r ?d0 = Some ?c"
    by (simp add: new_Order_def plain_order_def alice_def cancel_with_reason_def)
  have i: "o__id ?d0 = 0"
    by (simp add: new_Order_def plain_order_def)
  note main = cancellation_record_origin [OF e, of example_ctx ?rs]
  from main o st
  have 1: "(\<exists>d\<in>set (orders (run example_ctx empty_store (?rs @ [?r]))). o__id d = o__id ?d0)
      \<and> (\<forall>d\<in>set (orders (run example_ctx empty_store (?rs @ [?r]))). o__id d = o__id ?d0 \<longrightarrow>
           o_status d = Val ''Cancelled'' \<and> o_cancellationReason d = Val ?c)"
    by (metis list.set_intros(1))
  from main o st
  have 2: "\<exists>d\<in>set (orders (run example_ctx empty_store (?rs @ ?r # [PutOrder 2000 alice 0 ship]))).
             o__id d = o__id ?d0 \<and> (\<exists>c'. o_cancellationReason d = Val c')"
    by (metis list.set_intros(1))
  from 1 have 3: "\<exists>d\<in>set (orders (run example_ctx empty_store (?rs @ [?r]))).
      o__id d = 0 \<and> o_status d = Val ''Cancelled'' \<and> o_cancellationReason d = Val ?c"
    unfolding i by blast
  from 2 have 4: "\<exists>d\<in>set (orders (run example_ctx empty_store
        (?rs @ ?r # [PutOrder 2000 alice 0 ship]))).
      o__id d = 0 \<and> (\<exists>c'. o_cancellationReason d = Val c')"
    unfolding i .
  from e o st 3 4 show ?thesis by simp
qed

subsection \<open>C3: creating an order\<close>

text \<open>
  C3. An order created through POST /api/orders by the authenticated user U is stored with
  U as its owner, also when the body carries a \<open>userId\<close> of its own; the order count of U
  goes up by exactly 1 and no other user's record changes. The request creates an order
  (answers 201) exactly when the body passes the schema and the order's \<open>_id\<close> (the one the
  body brings, or else the generated one) is not taken; otherwise \<open>save()\<close> rejects, the
  answer is 500 and nothing is stored or counted.
\<close>

theorem post_order_owner_and_count:
  assumes "u \<in> set (users s)" and "u__id u = jwt_userId req_user"
    and "distinct (map u__id (users s))"
  shows "(\<forall>d s'. post_api_orders cx s req_user body = (Json 201 (OrderBody d), s') \<longrightarrow>
            o_userId d = Val (jwt_userId req_user)
            \<and> orders s' = orders s @ [d]
            \<and> users s' = map (\<lambda>x. if u__id x = jwt_userId req_user
                                    then x\<lparr>u_orders := u_orders x + 1\<rparr> else x) (users s)
            \<and> u\<lparr>u_orders := u_orders u + 1\<rparr> \<in> set (users s'))
         \<and> (\<forall>b. body = Castable b
                \<and> (case ob__id b of None \<Rightarrow> next_id s | Some given \<Rightarrow> given)
                    \<notin> set (map o__id (orders s)) \<longrightarrow>
              (\<exists>d s'. post_api_orders cx s req_user body = (Json 201 (OrderBody d), s')
                 \<and> o__id d = (case ob__id b of None \<Rightarrow> next_id s | Some given \<Rightarrow> given)))
         \<and> (\<forall>b. body = Castable b
                \<and> (case ob__id b of None \<Rightarrow> next_id s | Some given \<Rightarrow> given)
                    \<in> set (map o__id (orders s)) \<longrightarrow>
              post_api_orders cx s req_user body =
                (Error 500 (duplicate_key_message cx
                   (case ob__id b of None \<Rightarrow> next_id s | Some given \<Rightarrow> given)), s))
         \<and> (\<forall>message. body = Uncastable message \<longrightarrow>
              post_api_orders cx s req_user body = (Error 500 message, s))"
proof -
  let ?new = "\<lambda>b. new_Order (next_id s) (b\<lparr>ob_userId := Val (jwt_userId req_user)\<rparr>)"
  let ?us = "map (\<lambda>x. if u__id x = jwt_userId req_user
                       then x\<lparr>u_orders := u_orders x + 1\<rparr> else x) (users s)"
  have id: "o__id (?new b) = (case ob__id b of None \<Rightarrow> next_id s | Some given \<Rightarrow> given)" for b
    by (simp add: new_Order_def)
  have owner: "o_userId (?new b) = Val (jwt_userId req_user)" for b
    by (simp add: new_Order_def)
  have inc: "findOneAndUpdate (\<lambda>x. u__id x = jwt_userId req_user)
          (\<lambda>x. x\<lparr>u_orders := u_orders x + 1\<rparr>) (users s) =
        (Some (u\<lparr>u_orders := u_orders u + 1\<rparr>), ?us)"
    using assms(3,1,2) by (rule findOneAndUpdate_id)
  have mem: "u\<lparr>u_orders := u_orders u + 1\<rparr> \<in> set ?us"
    using assms(1,2) by (auto simp: image_iff intro!: bexI [of _ u])
  have created: "post_api_orders cx s req_user (Castable b) =
        (Json 201 (OrderBody (?new b)),
         s\<lparr>orders := orders s @ [?new b],
           next_id := Suc (max (next_id s) (o__id (?new b))), users := ?us\<rparr>)"
    if "o__id (?new b) \<notin> set (map o__id (orders s))" for b
    using that inc by (simp add: post_api_orders_def Let_def)
  have taken: "post_api_orders cx s req_user (Castable b) =
        (Error 500 (duplicate_key_message cx (o__id (?new b))), s)"
    if "o__id (?new b) \<in> set (map o__id (orders s))" for b
    using that by (simp add: post_api_orders_def Let_def)
  have rejected: "post_api_orders cx s req_user (Uncastable message) = (Error 500 message, s)"
    for message
    by (simp add: post_api_orders_def)
  have a: "o_userId d = Val (jwt_userId req_user) \<and> orders s' = orders s @ [d]
       \<and> users s' = ?us \<and> u\<lparr>u_orders := u_orders u + 1\<rparr> \<in> set (users s')"
    if "post_api_orders cx s req_user body = (Json 201 (OrderBody d), s')" for d s'
  proof (cases body)
    case (Uncastable message)
    with that rejected show ?thesis by simp
  next
    case (Castable b)
    show ?thesis
    proof (cases "o__id (?new b) \<in> set (map o__id (orders s))")
      case True
      with that Castable taken [of b] show ?thesis by simp
    next
      case False
      with that Castable created [of b] owner [of b] mem show ?thesis by auto
    qed
  qed
  have b: "\<exists>d s'. post_api_orders cx s req_user body = (Json 201 (OrderBody d), s')
       \<and> o__id d = (case ob__id b of None \<Rightarrow> next_id s | Some given \<Rightarrow> given)"
    if "body = Castable b"
      "(case ob__id b of None \<Rightarrow> next_id s | Some given \<Rightarrow> given) \<notin> set (map o__id (orders s))"
    for b
    using that created [of b] id [of b] by simp
  have c: "post_api_orders cx s req_user body =
        (Error 500 (duplicate_key_message cx
           (case ob__id b of None \<Rightarrow> next_id s | Some given \<Rightarrow> given)), s)"
    if "body = Castable b"
      "(case ob__id b of None \<Rightarrow> next_id s | Some given \<Rightarrow> given) \<in> set (map o__id (orders s))"
    for b
    using that taken [of b] id [of b] by simp
  from a b c rejected show ?thesis by blast
qed

theorem post_order_owner_and_count_witness:
  "alice_user \<in> set (users shop) \<and> u__id alice_user = jwt_userId alice
   \<and> distinct (map u__id (users shop))
   \<and> ob_userId plain_order = Val 2
   \<and> (\<exists>d s'. post_api_orders example_ctx shop alice (Castable plain_order) =
                (Json 201 (OrderBody d), s')
         \<and> o__id d = 10
         \<and> o_userId d = Val 1
         \<and> orders s' = [order7, order8, order9, d]
         \<and> users s' = [alice_user\<lparr>u_orders := 3\<rparr>, bob_user])
   \<and> post_api_orders example_ctx shop alice (Castable (plain_order\<lparr>ob__id := Some 7\<rparr>)) =
       (Error 500 ''E11000 duplicate key error'', shop)"
proof -
  have a: "alice_user \<in> set (users shop)"
    by (simp add: shop_def)
  have b: "u__id alice_user = jwt_userId alice"
    by (simp add: alice_user_def alice_def)
  have c: "distinct (map u__id (users shop))"
    by (simp add: shop_def alice_user_def bob_user_def)
  note main = post_order_owner_and_count [OF a b c, of example_ctx "Castable plain_order"]
  have free: "(case ob__id plain_order of None \<Rightarrow> next_id shop | Some given \<Rightarrow> given)
      \<notin> set (map o__id (orders shop))"
    by (simp add: plain_order_def shop_def order7_def order8_def order9_def)
  from main free obtain d s' where
    r: "post_api_orders example_ctx shop alice (Castable plain_order) =
          (Json 201 (OrderBody d), s')"
      "o__id d = (case ob__id plain_order of None \<Rightarrow> next_id shop | Some given \<Rightarrow> given)"
    by blast
  from main r(1) have p: "o_userId d = Val (jwt_userId alice)" "orders s' = orders shop @ [d]"
    "users s' = map (\<lambda>x. if u__id x = jwt_userId alice
                          then x\<lparr>u_orders := u_orders x + 1\<rparr> else x) (users shop)"
    by blast+
  have "o__id d = 10"
    using r(2) by (simp add: plain_order_def shop_def)
  moreover have "o_userId d = Val 1"
    using p(1) by (simp add: alice_def)
  moreover have "orders s' = [order7, order8, order9, d]"
    using p(2) by (simp add: shop_def)
  moreover have "users s' = [alice_user\<lparr>u_orders := 3\<rparr>, bob_user]"
    using p(3) by (simp add: shop_def alice_user_def bob_user_def alice_def)
  moreover have "ob_userId plain_order = Val 2"
    by (simp add: plain_order_def)
  moreover have "post_api_orders example_ctx shop alice
        (Castable (plain_order\<lparr>ob__id := Some 7\<rparr>)) =
      (Error 500 ''E11000 duplicate key error'', shop)"
    using post_order_owner_and_count [OF a b c, of example_ctx
        "Castable (plain_order\<lparr>ob__id := Some 7\<rparr>)"]
    by (simp add: plain_order_def shop_def order7_def example_ctx_def)
  ultimately show ?thesis
    using a b c r(1) by blast
qed

subsection \<open>C4: updating somebody else's order\<close>



subsection \<open>C5: registering, then logging in\<close>

text \<open>
  C5. After a registration with an email E that no stored user has and a password P, a
  login with the same E and P succeeds, and the token it returns is accepted by the token
  verification and resolves to the identity of the user just registered (the same user id
  and the email E). The hash library enters through one property: comparing P with the
  hash it made of P succeeds.
\<close>

theorem register_login_roundtrip:
  assumes "rb_email b = Val E" and "rb_password b = Val P"
    and "\<forall>u\<in>set (users s). u_email u \<noteq> Val E"
    and "bcrypt_compare cx P (bcrypt_hash cx P 10 salt)"
  shows "\<exists>token1 summary1 s1 token2 summary2 identity.
           post_api_register cx s T1 salt b =
             (Json 201 (AuthBody ''User created successfully'' token1 summary1), s1)
           \<and> post_api_login cx s1 T2 \<lparr>lb_email = Val E, lb_password = Val P\<rparr> =
             (Json 200 (AuthBody ''Login successful'' token2 summary2), s1)
           \<and> authenticateToken cx T2 (Some [scheme, token2]) = Inr identity
           \<and> jwt_verify token2 (JWT_SECRET cx) T2 = Inr identity
           \<and> jwt_userId identity = us_id summary1
           \<and> jwt_email identity = Val E
           \<and> (\<exists>u\<in>set (users s1). u__id u = jwt_userId identity \<and> u_email u = Val E)"
proof -
  have none: "findOne (\<lambda>u. matches (Val E) (u_email u)) (users s) = None"
    using assms(3) by (simp add: findOne_None_iff matches_def)
  define user where "user =
     \<lparr>u__id = next_id s, u_firstName = rb_firstName b, u_lastName = rb_lastName b,
      u_email = Val E, u_password = Val (bcrypt_hash cx P 10 salt),
      u_phone = rb_phone b, u_dateOfBirth = rb_dateOfBirth b, u_gender = rb_gender b,
      u_address = rb_address b, u_city = rb_city b, u_state = rb_state b,
      u_zipCode = rb_zipCode b, u_country = rb_country b, u_orders = 0,
      u_profileImage = Undefined, u_createdAt = T1\<rparr>"
  define s1 where "s1 = s\<lparr>users := users s @ [user], next_id := Suc (next_id s)\<rparr>"
  have reg: "post_api_register cx s T1 salt b =
     (Json 201 (AuthBody ''User created successfully''
        (jwt_sign (next_id s) (Val E) (JWT_SECRET cx) expiresIn_24h T1)
        \<lparr>us_id = next_id s,
         us_name = template (rb_firstName b) @ '' '' @ template (rb_lastName b),
         us_email = Val E, us_phone = rb_phone b, us_dateOfBirth = rb_dateOfBirth b,
         us_gender = rb_gender b, us_address = rb_address b, us_orders = 0,
         us_profileImage = Undefined\<rparr>), s1)"
    using assms(1,2) none by (simp add: post_api_register_def s1_def user_def)
  have found: "findOne (\<lambda>u. matches (Val E) (u_email u)) (users s1) = Some user"
    using findOne_append_new [OF none, of user] by (simp add: s1_def user_def matches_def)
  have login: "post_api_login cx s1 T2 \<lparr>lb_email = Val E, lb_password = Val P\<rparr> =
     (Json 200 (AuthBody ''Login successful''
        (jwt_sign (next_id s) (Val E) (JWT_SECRET cx) expiresIn_24h T2)
        \<lparr>us_id = next_id s,
         us_name = template (rb_firstName b) @ '' '' @ template (rb_lastName b),
         us_email = Val E, us_phone = rb_phone b, us_dateOfBirth = rb_dateOfBirth b,
         us_gender = rb_gender b, us_address = rb_address b, us_orders = 0,
         us_profileImage = Undefined\<rparr>), s1)"
    using found assms(4) by (simp add: post_api_login_def user_def)
  have auth: "authenticateToken cx T2
       (Some [scheme, jwt_sign (next_id s) (Val E) (JWT_SECRET cx) expiresIn_24h T2]) =
     Inr \<lparr>jwt_userId = next_id s, jwt_email = Val E,
          jwt_iat = T2 div 1000, jwt_exp = T2 div 1000 + 86400\<rparr>"
    by (simp add: authenticateToken_signed)
  have mem: "\<exists>u\<in>set (users s1). u__id u = next_id s \<and> u_email u = Val E"
    by (rule bexI [of _ user]) (simp_all add: s1_def user_def)
  have ver: "jwt_verify (jwt_sign (next_id s) (Val E) (JWT_SECRET cx) expiresIn_24h T2)
       (JWT_SECRET cx) T2 =
     Inr \<lparr>jwt_userId = next_id s, jwt_email = Val E,
          jwt_iat = T2 div 1000, jwt_exp = T2 div 1000 + 86400\<rparr>"
    by (simp add: jwt_sign_def jwt_verify_def expiresIn_24h_def)
  from reg login auth ver mem show ?thesis by simp
qed

theorem register_login_roundtrip_witness:
  "rb_email carol_registration = Val ''c@x.com''
   \<and> rb_password carol_registration = Val ''secret3''
   \<and> map u_email (users shop) = [Val ''a@x.com'', Val ''b@x.com'']
   \<and> bcrypt_compare example_ctx ''secret3'' (bcrypt_hash example_ctx ''secret3'' 10 ''nacl'')
   \<and> (\<exists>token1 summary1 s1 token2 summary2 identity.
         post_api_register example_ctx shop 1000 ''nacl'' carol_registration =
           (Json 201 (AuthBody ''User created successfully'' token1 summary1), s1)
         \<and> post_api_login example_ctx s1 2000
             \<lparr>lb_email = Val ''c@x.com'', lb_password = Val ''secret3''\<rparr> =
           (Json 200 (AuthBody ''Login successful'' token2 summary2), s1)
         \<and> authenticateToken example_ctx 2000 (Some [Opaque ''Bearer'', token2]) = Inr identity
         \<and> jwt_userId identity = us_id summary1
         \<and> jwt_email identity = Val ''c@x.com'')"
proof -
  have a: "rb_email carol_registration = Val ''c@x.com''"
    by (simp add: carol_registration_def)
  have b: "rb_password carol_registration = Val ''secret3''"
    by (simp add: carol_registration_def)
  have c: "\<forall>u\<in>set (users shop). u_email u \<noteq> Val ''c@x.com''"
    by (simp add: shop_def alice_user_def bob_user_def)
  have d: "bcrypt_compare example_ctx ''secret3'' (bcrypt_hash example_ctx ''secret3'' 10 ''nacl'')"
    by (simp add: example_ctx_def)
  from register_login_roundtrip [OF a b c d, of 1000 2000 "Opaque ''Bearer''"]
  have "\<exists>token1 summary1 s1 token2 summary2 identity.
         post_api_register example_ctx shop 1000 ''nacl'' carol_registration =
           (Json 201 (AuthBody ''User created successfully'' token1 summary1), s1)
         \<and> post_api_login example_ctx s1 2000
             \<lparr>lb_email = Val ''c@x.com'', lb_password = Val ''secret3''\<rparr> =
           (Json 200 (AuthBody ''Login successful'' token2 summary2), s1)
         \<and> authenticateToken example_ctx 2000 (Some [Opaque ''Bearer'', token2]) = Inr identity
         \<and> jwt_userId identity = us_id summary1
         \<and> jwt_email identity = Val ''c@x.com''"
    by blast
  moreover have "map u_email (users shop) = [Val ''a@x.com'', Val ''b@x.com'']"
    by (simp add: shop_def alice_user_def bob_user_def)
  ultimately show ?thesis using a b d by blast
qed

subsection \<open>C6: how long a token is valid\<close>

text \<open>
  C6, as claimed: a token issued at time T verifies at every time in [T, T + 24h). The
  token's clock counts whole seconds, so this fails within the last second: a token issued
  at 999 ms (\<open>iat = 0\<close>, \<open>exp = 86400\<close>) is refused at 86400000 ms, which is 999 ms before
  T + 24h.
\<close>

theorem token_validity_counterexample:
  "(999::int) \<le> 86400000 \<and> (86400000::int) < 999 + 24 * 60 * 60 * 1000
   \<and> authenticateToken example_ctx 86400000
        (Some [Opaque ''Bearer'',
               jwt_sign 1 (Val ''a@x.com'') (JWT_SECRET example_ctx) expiresIn_24h 999]) =
       Inl (Error 403 ''Invalid or expired token'')"
  by (simp add: authenticateToken_def jwt_sign_def jwt_verify_def expiresIn_24h_def)

text \<open>
  C6, amended. A token issued at server time T (in milliseconds) carries
  \<open>iat = T div 1000\<close> and \<open>exp = iat + 86400\<close>, and its verification at time \<open>t\<close> succeeds,
  returning the embedded user id and email, exactly when \<open>t div 1000 < T div 1000 + 86400\<close>.
  So it succeeds at every time in [T, T + 24h - 1s], and in all of [T, T + 24h) when T is a
  whole second; it fails at and after T + 24h. The time enters the verification through
  this comparison only.
\<close>

theorem token_validity_window:
  "authenticateToken cx t (Some [scheme, jwt_sign uid em (JWT_SECRET cx) expiresIn_24h T]) =
     (if t div 1000 < T div 1000 + 86400
      then Inr \<lparr>jwt_userId = uid, jwt_email = em,
                jwt_iat = T div 1000, jwt_exp = T div 1000 + 86400\<rparr>
      else Inl (Error 403 ''Invalid or expired token''))
   \<and> (T \<le> t \<and> t \<le> T + 24 * 60 * 60 * 1000 - 1000 \<longrightarrow>
        authenticateToken cx t
          (Some [scheme, jwt_sign uid em (JWT_SECRET cx) expiresIn_24h T]) =
        Inr \<lparr>jwt_userId = uid, jwt_email = em,
             jwt_iat = T div 1000, jwt_exp = T div 1000 + 86400\<rparr>)
   \<and> (1000 dvd T \<and> T \<le> t \<and> t < T + 24 * 60 * 60 * 1000 \<longrightarrow>
        authenticateToken cx t
          (Some [scheme, jwt_sign uid em (JWT_SECRET cx) expiresIn_24h T]) =
        Inr \<lparr>jwt_userId = uid, jwt_email = em,
             jwt_iat = T div 1000, jwt_exp = T div 1000 + 86400\<rparr>)
   \<and> (T + 24 * 60 * 60 * 1000 \<le> t \<longrightarrow>
        authenticateToken cx t
          (Some [scheme, jwt_sign uid em (JWT_SECRET cx) expiresIn_24h T]) =
        Inl (Error 403 ''Invalid or expired token''))"
proof -
  have a: "t div 1000 < T div 1000 + 86400" if "T \<le> t" "t \<le> T + 24 * 60 * 60 * 1000 - 1000"
    using that by linarith
  have b: "t div 1000 < T div 1000 + 86400" if "1000 dvd T" "T \<le> t" "t < T + 24 * 60 * 60 * 1000"
    using that by (elim dvdE) auto
  have c: "\<not> t div 1000 < T div 1000 + 86400" if "T + 24 * 60 * 60 * 1000 \<le> t"
    using that by linarith
  from a b c show ?thesis by (simp add: authenticateToken_signed)
qed

theorem token_validity_window_witness:
  "(999::int) \<le> 86399999 \<and> (86399999::int) \<le> 999 + 24 * 60 * 60 * 1000 - 1000
   \<and> authenticateToken example_ctx 86399999
        (Some [Opaque ''Bearer'',
               jwt_sign 1 (Val ''a@x.com'') (JWT_SECRET example_ctx) expiresIn_24h 999]) =
       Inr \<lparr>jwt_userId = 1, jwt_email = Val ''a@x.com'', jwt_iat = 0, jwt_exp = 86400\<rparr>
   \<and> (1000::int) dvd 2000 \<and> (2000::int) \<le> 86401999 \<and> (86401999::int) < 2000 + 24 * 60 * 60 * 1000
   \<and> authenticateToken example_ctx 86401999
        (Some [Opaque ''Bearer'',
               jwt_sign 1 (Val ''a@x.com'') (JWT_SECRET example_ctx) expiresIn_24h 2000]) =
       Inr \<lparr>jwt_userId = 1, jwt_email = Val ''a@x.com'', jwt_iat = 2, jwt_exp = 86402\<rparr>
   \<and> (999::int) + 24 * 60 * 60 * 1000 \<le> 86400999
   \<and> authenticateToken example_ctx 86400999
        (Some [Opaque ''Bearer'',
               jwt_sign 1 (Val ''a@x.com'') (JWT_SECRET example_ctx) expiresIn_24h 999]) =
       Inl (Error 403 ''Invalid or expired token'')"
  using token_validity_window [of example_ctx 86399999 "Opaque ''Bearer''" 1 "Val ''a@x.com''" 999]
    token_validity_window [of example_ctx 86401999 "Opaque ''Bearer''" 1 "Val ''a@x.com''" 2000]
    token_validity_window [of example_ctx 86400999 "Opaque ''Bearer''" 1 "Val ''a@x.com''" 999]
  by simp

subsection \<open>C7: changing the password\<close>

text \<open>
  C7. A password change (PUT /api/user/password) whose \<open>currentPassword\<close> does not match
  the stored hash answers 400 and leaves the store, the hash included, as it was. The store
  changes only for a current password that matches, and then the hash of the new password
  is what is stored for the user.
\<close>

theorem change_password_wrong_current:
  assumes "findOne (\<lambda>u. u__id u = jwt_userId req_user) (users s) = Some user"
    and "u_password user = Val hashed"
    and "currentPassword b = Val current"
    and "\<not> bcrypt_compare cx current hashed"
  shows "put_api_user_password cx s salt req_user b =
           (Error 400 ''Current password is incorrect'', s)
         \<and> (\<forall>b'. snd (put_api_user_password cx s salt req_user b') \<noteq> s \<longrightarrow>
                (\<exists>given. currentPassword b' = Val given \<and> bcrypt_compare cx given hashed))
         \<and> (\<forall>b' given new.
                currentPassword b' = Val given \<and> bcrypt_compare cx given hashed
                \<and> newPassword b' = Val new \<longrightarrow>
                fst (put_api_user_password cx s salt req_user b') =
                  Json 200 (MessageBody ''Password updated successfully'')
                \<and> findOne (\<lambda>u. u__id u = jwt_userId req_user)
                     (users (snd (put_api_user_password cx s salt req_user b'))) =
                   Some (user\<lparr>u_password := Val (bcrypt_hash cx new 10 salt)\<rparr>))"
proof -
  have a: "put_api_user_password cx s salt req_user b =
           (Error 400 ''Current password is incorrect'', s)"
    using assms by (simp add: put_api_user_password_def)
  have b: "\<exists>given. currentPassword b' = Val given \<and> bcrypt_compare cx given hashed"
    if "snd (put_api_user_password cx s salt req_user b') \<noteq> s" for b'
    using put_api_user_password_changes [OF that] assms(1,2) by auto
  have idu: "u__id user = jwt_userId req_user"
    using findOne_Some [OF assms(1)] by simp
  have c: "fst (put_api_user_password cx s salt req_user b') =
                  Json 200 (MessageBody ''Password updated successfully'')
                \<and> findOne (\<lambda>u. u__id u = jwt_userId req_user)
                     (users (snd (put_api_user_password cx s salt req_user b'))) =
                   Some (user\<lparr>u_password := Val (bcrypt_hash cx new 10 salt)\<rparr>)"
    if "currentPassword b' = Val given" "bcrypt_compare cx given hashed"
       "newPassword b' = Val new" for b' given new
    using that assms(1,2) idu
      findOne_update_first [OF assms(1),
        of "\<lambda>u. u\<lparr>u_password := Val (bcrypt_hash cx new 10 salt)\<rparr>"]
    by (simp add: put_api_user_password_def)
  from a b c show ?thesis by blast
qed

theorem change_password_wrong_current_witness:
  "findOne (\<lambda>u. u__id u = jwt_userId alice) (users shop) = Some alice_user
   \<and> u_password alice_user = Val ''saltsecret1''
   \<and> \<not> bcrypt_compare example_ctx ''wrong'' ''saltsecret1''
   \<and> put_api_user_password example_ctx shop ''nacl'' alice
        \<lparr>currentPassword = Val ''wrong'', newPassword = Val ''secret9''\<rparr> =
       (Error 400 ''Current password is incorrect'', shop)
   \<and> findOne (\<lambda>u. u__id u = jwt_userId alice)
        (users (snd (put_api_user_password example_ctx shop ''nacl'' alice
           \<lparr>currentPassword = Val ''secret1'', newPassword = Val ''secret9''\<rparr>))) =
       Some (alice_user\<lparr>u_password := Val ''naclsecret9''\<rparr>)"
proof -
  have f: "findOne (\<lambda>u. u__id u = jwt_userId alice) (users shop) = Some alice_user"
    by (simp add: findOne_def shop_def alice_user_def alice_def)
  have p: "u_password alice_user = Val ''saltsecret1''"
    by (simp add: alice_user_def)
  have w: "\<not> bcrypt_compare example_ctx ''wrong'' ''saltsecret1''"
    by (simp add: example_ctx_def)
  have m: "bcrypt_compare example_ctx ''secret1'' ''saltsecret1''"
    by (simp add: example_ctx_def)
  have h: "bcrypt_hash example_ctx ''secret9'' 10 ''nacl'' = ''naclsecret9''"
    by (simp add: example_ctx_def)
  have c: "currentPassword \<lparr>currentPassword = Val ''wrong'', newPassword = Val ''secret9''\<rparr>
      = Val ''wrong''"
    by simp
  note main = change_password_wrong_current [OF f p c w, of "''nacl''"]
  from main have r1: "put_api_user_password example_ctx shop ''nacl'' alice
        \<lparr>currentPassword = Val ''wrong'', newPassword = Val ''secret9''\<rparr> =
       (Error 400 ''Current password is incorrect'', shop)"
    by blast
  from main have "\<forall>b' given new.
       currentPassword b' = Val given \<and> bcrypt_compare example_ctx given ''saltsecret1''
       \<and> newPassword b' = Val new \<longrightarrow>
       fst (put_api_user_password example_ctx shop ''nacl'' alice b') =
         Json 200 (MessageBody ''Password updated successfully'')
       \<and> findOne (\<lambda>u. u__id u = jwt_userId alice)
            (users (snd (put_api_user_password example_ctx shop ''nacl'' alice b'))) =
          Some (alice_user\<lparr>u_password := Val (bcrypt_hash example_ctx new 10 ''nacl'')\<rparr>)"
    by blast
  from this [rule_format,
      of "\<lparr>currentPassword = Val ''secret1'', newPassword = Val ''secret9''\<rparr>"
         "''secret1''" "''secret9''"] m h
  have r3: "findOne (\<lambda>u. u__id u = jwt_userId alice)
        (users (snd (put_api_user_password example_ctx shop ''nacl'' alice
           \<lparr>currentPassword = Val ''secret1'', newPassword = Val ''secret9''\<rparr>))) =
       Some (alice_user\<lparr>u_password := Val ''naclsecret9''\<rparr>)"
    by simp
  from f p w r1 r3 show ?thesis by blast
qed

subsection \<open>C8: listing orders\<close>

text \<open>
  C8. GET /api/orders for the authenticated user U answers with exactly the orders whose
  owner is U, each as often as it is stored and none of another user, in descending order
  of the stored \<open>date\<close> string (strings compare lexicographically, character by character;
  an order without a date string comes last).
\<close>

theorem list_orders_owned_sorted:
  "\<exists>listed. get_api_orders s req_user = (Json 200 (OrdersBody listed), s)
     \<and> mset listed = mset (filter (\<lambda>d. o_userId d = Val (jwt_userId req_user)) (orders s))
     \<and> set listed = {d \<in> set (orders s). o_userId d = Val (jwt_userId req_user)}
     \<and> sorted_wrt (\<lambda>a b. sort_value (o_date b) \<le> sort_value (o_date a)) listed"
  by (simp add: get_api_orders_def sorted_sort_date_desc)
     (simp add: sort_date_desc_def)

subsection \<open>C9: a profile request of a user who is not stored\<close>

text \<open>
  C9. GET /api/user and PUT /api/user are both claimed to answer 404 when the
  authenticated identity is not in the user collection. GET /api/user does; PUT /api/user
  has no such check and answers 200 with \<open>null\<close> for the user, here for the identity
  \<open>carol\<close> (user 3), who is not stored in \<open>shop\<close>. Neither request changes a stored password
  or order count, nor does GET /api/user change the store at all.
\<close>

theorem put_user_missing_identity:
  "get_api_user shop carol = (Error 404 ''User not found'', shop)
   \<and> put_api_user shop carol new_name = (Json 200 (UserBody None), shop)
   \<and> status_code (fst (put_api_user shop carol new_name)) = 200
   \<and> snd (get_api_user s req_user) = s
   \<and> map u_password (users (snd (put_api_user s req_user b))) = map u_password (users s)
   \<and> map u_orders (users (snd (put_api_user s req_user b))) = map u_orders (users s)"
proof -
  have a: "get_api_user shop carol = (Error 404 ''User not found'', shop)"
    by (simp add: get_api_user_def findOne_def shop_def alice_user_def bob_user_def carol_def)
  have b: "put_api_user shop carol new_name = (Json 200 (UserBody None), shop)"
    by (simp add: put_api_user_def findOneAndUpdate_def findOne_def shop_def alice_user_def
          bob_user_def carol_def)
  have c: "snd (get_api_user s req_user) = s"
    by (simp add: get_api_user_def split: option.splits)
  have u: "users (snd (put_api_user s req_user b)) =
      update_first (\<lambda>u. u__id u = jwt_userId req_user)
        (\<lambda>u. u\<lparr>u_firstName := set_path (pb_firstName b) (u_firstName u),
                u_lastName := set_path (pb_lastName b) (u_lastName u),
                u_phone := set_path (pb_phone b) (u_phone u),
                u_dateOfBirth := set_path (pb_dateOfBirth b) (u_dateOfBirth u),
                u_gender := set_path (pb_gender b) (u_gender u),
                u_address := set_path (pb_address b) (u_address u),
                u_city := set_path (pb_city b) (u_city u),
                u_state := set_path (pb_state b) (u_state u),
                u_zipCode := set_path (pb_zipCode b) (u_zipCode u),
                u_country := set_path (pb_country b) (u_country u),
                u_profileImage := set_path (pb_profileImage b) (u_profileImage u)\<rparr>)
        (users s)"
    by (simp add: put_api_user_def findOneAndUpdate_def findOne_None_update_first
          split: option.splits)
  have d: "map u_password (users (snd (put_api_user s req_user b))) = map u_password (users s)"
    unfolding u by (rule update_first_map_eq) simp
  have e: "map u_orders (users (snd (put_api_user s req_user b))) = map u_orders (users s)"
    unfolding u by (rule update_first_map_eq) simp
  from b have b': "status_code (fst (put_api_user shop carol new_name)) = 200"
    by simp
  from a b b' c d e show ?thesis by blast
qed

subsection \<open>C10: the admin update and the tracking field\<close>

text \<open>
  C10. An admin update (PUT /api/admin/orders/:id) leaves the \<open>tracking\<close> of every stored
  order as it was, also when the body supplies one: apart from \<open>status\<close> and
  \<open>cancellationReason\<close> no path of any order changes, and the cancellation record changes
  only for the status \<open>Cancelled\<close> with a reason. The self-service update of an order the
  caller owns, for the same body, answers 200 and stores the tracking value the body
  supplies on that order, and on no other.
\<close>

theorem admin_update_keeps_tracking:
  "map (\<lambda>d. d\<lparr>o_status := Undefined, o_cancellationReason := Undefined\<rparr>)
       (orders (snd (put_api_admin_orders_id s now req_user params_id b))) =
   map (\<lambda>d. d\<lparr>o_status := Undefined, o_cancellationReason := Undefined\<rparr>) (orders s)
   \<and> map o_tracking (orders (snd (put_api_admin_orders_id s now req_user params_id b))) =
     map o_tracking (orders s)
   \<and> (ub_status b \<noteq> Val ''Cancelled'' \<or> (\<forall>given. ub_cancellationReason b \<noteq> Val given) \<longrightarrow>
        map o_cancellationReason
          (orders (snd (put_api_admin_orders_id s now req_user params_id b))) =
        map o_cancellationReason (orders s))
   \<and> (\<forall>d. fst (put_api_admin_orders_id s now req_user params_id b) = Json 200 (OrderBody d)
         \<longrightarrow> (\<exists>d0\<in>set (orders s). o__id d0 = params_id \<and> o_tracking d = o_tracking d0))
   \<and> (\<forall>d t. fst (put_api_orders_id s now req_user params_id b) = Json 200 (OrderBody d)
         \<longrightarrow> ub_tracking b = Val t \<longrightarrow> o_tracking d = Val t)
   \<and> (\<forall>d0. d0 \<in> set (orders s) \<and> o__id d0 = params_id
           \<and> o_userId d0 = Val (jwt_userId req_user)
           \<and> distinct (map o__id (orders s)) \<and> ub_tracking b \<noteq> Undefined \<longrightarrow>
         (\<exists>d. fst (put_api_orders_id s now req_user params_id b) = Json 200 (OrderBody d)
            \<and> d \<in> set (orders (snd (put_api_orders_id s now req_user params_id b)))
            \<and> o__id d = params_id \<and> o_tracking d = ub_tracking b)
         \<and> map o_tracking (orders (snd (put_api_orders_id s now req_user params_id b))) =
           map (\<lambda>x. if o__id x = params_id then ub_tracking b else o_tracking x) (orders s))"
proof -
  let ?ud = "add_cancellation now b
               \<lparr>ud_status = ub_status b, ud_tracking = Undefined, ud_cancellationReason = Undefined\<rparr>"
  have st: "orders (snd (put_api_admin_orders_id s now req_user params_id b)) =
        update_first (\<lambda>d. o__id d = params_id) (apply_update ?ud) (orders s)"
    by (simp add: put_api_admin_orders_id_unfold findOne_None_update_first split: option.splits)
  have a: "map (\<lambda>d. d\<lparr>o_status := Undefined, o_cancellationReason := Undefined\<rparr>)
       (orders (snd (put_api_admin_orders_id s now req_user params_id b))) =
     map (\<lambda>d. d\<lparr>o_status := Undefined, o_cancellationReason := Undefined\<rparr>) (orders s)"
    unfolding st
    by (rule update_first_map_eq) (simp add: apply_update_def set_path_def)
  have b: "map o_tracking (orders (snd (put_api_admin_orders_id s now req_user params_id b))) =
     map o_tracking (orders s)"
    unfolding st
    by (rule update_first_map_eq) (simp add: apply_update_def set_path_def)
  have c: "\<exists>d0\<in>set (orders s). o__id d0 = params_id \<and> o_tracking d = o_tracking d0"
    if "fst (put_api_admin_orders_id s now req_user params_id b) = Json 200 (OrderBody d)" for d
    using that
    by (auto simp: put_api_admin_orders_id_unfold apply_update_def set_path_def
             split: option.splits dest!: findOne_Some)
  have d: "o_tracking d = Val t"
    if "fst (put_api_orders_id s now req_user params_id b) = Json 200 (OrderBody d)"
      and "ub_tracking b = Val t" for d t
    using that
    by (auto simp: put_api_orders_id_unfold apply_update_def set_path_def
             split: option.splits)
  have e: "map o_cancellationReason
          (orders (snd (put_api_admin_orders_id s now req_user params_id b))) =
        map o_cancellationReason (orders s)"
    if "ub_status b \<noteq> Val ''Cancelled'' \<or> (\<forall>given. ub_cancellationReason b \<noteq> Val given)"
    unfolding st using that
    by (intro update_first_map_eq)
       (auto simp: apply_update_def add_cancellation_def set_path_def split: nullable.splits)
  have f: "(\<exists>d. fst (put_api_orders_id s now req_user params_id b) = Json 200 (OrderBody d)
            \<and> d \<in> set (orders (snd (put_api_orders_id s now req_user params_id b)))
            \<and> o__id d = params_id \<and> o_tracking d = ub_tracking b)
         \<and> map o_tracking (orders (snd (put_api_orders_id s now req_user params_id b))) =
           map (\<lambda>x. if o__id x = params_id then ub_tracking b else o_tracking x) (orders s)"
    if h: "d0 \<in> set (orders s)" "o__id d0 = params_id"
      "o_userId d0 = Val (jwt_userId req_user)" "distinct (map o__id (orders s))"
      "ub_tracking b \<noteq> Undefined" for d0
  proof -
    let ?ud2 = "add_cancellation now b
       \<lparr>ud_status = ub_status b, ud_tracking = ub_tracking b,
        ud_cancellationReason = Undefined\<rparr>"
    have tr: "o_tracking (apply_update ?ud2 x) = ub_tracking b" for x
      using h(5) by (simp add: apply_update_def set_path_def split: nullable.splits)
    have "findOneAndUpdate
            (\<lambda>x. o__id x = params_id \<and> o_userId x = Val (jwt_userId req_user))
            (apply_update ?ud2) (orders s) =
          (Some (apply_update ?ud2 d0),
           map (\<lambda>x. if o__id x = params_id then apply_update ?ud2 x else x) (orders s))"
      using h(4,1,2,3) by (rule findOneAndUpdate_key)
    then have r: "put_api_orders_id s now req_user params_id b =
        (Json 200 (OrderBody (apply_update ?ud2 d0)),
         s\<lparr>orders := map (\<lambda>x. if o__id x = params_id then apply_update ?ud2 x else x)
                         (orders s)\<rparr>)"
      by (simp add: put_api_orders_id_def)
    have m: "apply_update ?ud2 d0 \<in>
        set (map (\<lambda>x. if o__id x = params_id then apply_update ?ud2 x else x) (orders s))"
      using h(1,2) by (auto simp: image_iff intro!: bexI [of _ d0])
    have t: "map o_tracking
          (map (\<lambda>x. if o__id x = params_id then apply_update ?ud2 x else x) (orders s)) =
        map (\<lambda>x. if o__id x = params_id then ub_tracking b else o_tracking x) (orders s)"
      by (simp add: tr comp_def if_distrib cong: if_cong)
    from r m t tr [of d0] h(2) show ?thesis by simp
  qed
  from a b c d e f show ?thesis by blast
qed

theorem admin_update_keeps_tracking_witness:
  "map o_tracking
     (orders (snd (put_api_admin_orders_id shop 1000 alice 9 cancel_with_reason))) =
     [Undefined, Undefined, Val ''T0'']
   \<and> ub_tracking cancel_with_reason = Val ''T1''
   \<and> fst (put_api_orders_id shop 1000 alice 9 cancel_with_reason) =
       Json 200 (OrderBody
         (order9\<lparr>o_status := Val ''Cancelled'', o_tracking := Val ''T1'',
                 o_cancellationReason :=
                   Val \<lparr>reason = Val ''r'', comment = Val ''c'', cancelledAt = Val 1000\<rparr>\<rparr>))
   \<and> map o_tracking (orders (snd (put_api_orders_id shop 1000 alice 9 cancel_with_reason))) =
       [Undefined, Undefined, Val ''T1'']
   \<and> ub_status ship \<noteq> Val ''Cancelled''
   \<and> map o_cancellationReason (orders (snd (put_api_admin_orders_id shop 1000 alice 9 ship))) =
       [Undefined, Undefined, Undefined]"
proof -
  have t: "map o_tracking (orders shop) = [Undefined, Undefined, Val ''T0'']"
    by (simp add: shop_def order7_def order8_def order9_def)
  have c: "map o_cancellationReason (orders shop) = [Undefined, Undefined, Undefined]"
    by (simp add: shop_def order7_def order8_def order9_def)
  have s: "ub_status ship \<noteq> Val ''Cancelled''"
    by (simp add: ship_def)
  have f: "fst (put_api_orders_id shop 1000 alice 9 cancel_with_reason) =
       Json 200 (OrderBody
         (order9\<lparr>o_status := Val ''Cancelled'', o_tracking := Val ''T1'',
                 o_cancellationReason :=
                   Val \<lparr>reason = Val ''r'', comment = Val ''c'', cancelledAt = Val 1000\<rparr>\<rparr>))"
    by (simp add: put_api_orders_id_unfold findOne_def shop_def order7_def order8_def
          order9_def alice_def cancel_with_reason_def apply_update_def add_cancellation_def
          set_path_def)
  have u: "ub_tracking cancel_with_reason = Val ''T1''"
    by (simp add: cancel_with_reason_def)
  have o: "order9 \<in> set (orders shop) \<and> o__id order9 = 9
      \<and> o_userId order9 = Val (jwt_userId alice) \<and> distinct (map o__id (orders shop))
      \<and> ub_tracking cancel_with_reason \<noteq> Undefined"
    by (simp add: shop_def order7_def order8_def order9_def alice_def cancel_with_reason_def)
  note main = admin_update_keeps_tracking [of shop 1000 alice 9 cancel_with_reason]
  from main o
  have "map o_tracking (orders (snd (put_api_orders_id shop 1000 alice 9 cancel_with_reason))) =
      map (\<lambda>x. if o__id x = 9 then ub_tracking cancel_with_reason else o_tracking x)
        (orders shop)"
    by blast
  then have st: "map o_tracking
        (orders (snd (put_api_orders_id shop 1000 alice 9 cancel_with_reason))) =
      [Undefined, Undefined, Val ''T1'']"
    by (simp add: shop_def order7_def order8_def order9_def cancel_with_reason_def)
  from main t have a: "map o_tracking
       (orders (snd (put_api_admin_orders_id shop 1000 alice 9 cancel_with_reason))) =
     [Undefined, Undefined, Val ''T0'']"
    by simp
  from admin_update_keeps_tracking [of shop 1000 alice 9 ship] s c
  have e: "map o_cancellationReason
       (orders (snd (put_api_admin_orders_id shop 1000 alice 9 ship))) =
     [Undefined, Undefined, Undefined]"
    by simp
  from a u f st s e show ?thesis by blast
qed

end
